theory Spec2Isabelle
  imports Complex_Main "HOL-Library.Word"
begin

unbundle bit_operations_syntax

section \<open>Results and native handles\<close>

text \<open>
  \<open>utils::Result<T>\<close> and \<open>utils::VResult\<close> (utils/result.h) carry either a value or an
  error message. A failed \<open>assert\<close> (builds without \<open>NDEBUG\<close>) and undefined behaviour
  of the C++ are further ways in which a function does not return normally.
\<close>

datatype error = Error string | AssertionFailed | UndefinedBehaviour

type_synonym 'a Result = "error + 'a"
type_synonym VResult = "error + unit"

abbreviation Ok :: "'a \<Rightarrow> error + 'a" where
  "Ok v \<equiv> Inr v"

definition IsError :: "error + 'a \<Rightarrow> bool" where
  "IsError r = (case r of Inl _ \<Rightarrow> True | Inr _ \<Rightarrow> False)"


text \<open>Vulkan handles are opaque; \<open>0\<close> is \<open>VK_NULL_HANDLE\<close> (and \<open>nullptr\<close>).\<close>

type_synonym handle = nat

definition VK_NULL_HANDLE :: handle where
  "VK_NULL_HANDLE = 0"

datatype VkResult =
    VK_SUCCESS
  | VK_ERROR_OUT_OF_HOST_MEMORY
  | VK_ERROR_OUT_OF_DEVICE_MEMORY
  | VK_ERROR_INITIALIZATION_FAILED
  | VK_ERROR_EXTENSION_NOT_PRESENT
  | VK_ERROR_FEATURE_NOT_PRESENT
  | VK_ERROR_TOO_MANY_OBJECTS
  | VK_ERROR_DEVICE_LOST
  | VK_ERROR_SURFACE_LOST_KHR
  | VK_ERROR_NATIVE_WINDOW_IN_USE_KHR
  | VK_RESULT_OTHER int

text \<open>
  The native calls that create, fill and destroy objects, in the order a function issues
  them (the trace of a function is what it appends).
\<close>

datatype vk_call =
    VmaCreateBuffer nat "32 word"
  | VkCmdCopyBuffer handle handle nat
  | VkDestroyDevice handle
  | VkDestroySwapchainKHR handle
  | VkDestroyShaderModule handle
  | VkDestroyRenderPass handle
  | VkDestroyPipelineLayout handle
  | VmaDestroyBuffer handle handle
  | VkDestroyPipeline handle
  | VkDestroySemaphore handle
  | VkDestroyFence handle
  | VkDestroyCommandPool handle

section \<open>Device (app/device.hpp, app/device.cpp)\<close>

datatype QueueState = UNSUPPORTED | READY | USED

text \<open>\<open>enum SupportFeatures\<close>: bit flags stored in a \<open>std::vector<int>\<close>.\<close>

definition NOONE :: int where "NOONE = 0"
definition GRAPHICS :: int where "GRAPHICS = 1"
definition PRESENTS :: int where "PRESENTS = 2"
definition TRANSFERT :: int where "TRANSFERT = 4"

datatype VkPhysicalDeviceType =
    VK_PHYSICAL_DEVICE_TYPE_OTHER
  | VK_PHYSICAL_DEVICE_TYPE_INTEGRATED_GPU
  | VK_PHYSICAL_DEVICE_TYPE_DISCRETE_GPU
  | VK_PHYSICAL_DEVICE_TYPE_VIRTUAL_GPU
  | VK_PHYSICAL_DEVICE_TYPE_CPU

record VkPhysicalDeviceProperties =
  deviceName :: string
  deviceID :: "32 word"
  deviceType :: VkPhysicalDeviceType

record Device =
  m_physical_device :: handle
  m_queue_support :: "int list"
  m_queue_states :: "QueueState list"
  m_logical_device :: handle
  m_graphics_queue_family_index :: "32 word"
  m_presents_queue_family_index :: "32 word"
  m_transfert_queue_family_index :: "32 word"
  m_graphics_queue :: handle
  m_presents_queue :: handle
  m_transfert_queue :: handle

definition APPLE_M1_NAME :: string where
  "APPLE_M1_NAME = ''Apple M1''"

definition APPLE_M2_NAME :: string where
  "APPLE_M2_NAME = ''Apple M2''"

text \<open>
  \<open>isDeviceSuitable\<close>. \<open>apple\<close> is the compile-time \<open>__APPLE__\<close>; \<open>props\<close> is
  \<open>vkGetPhysicalDeviceProperties\<close>. \<open>NEEDS_GEOMETRY_SHADER\<close> is 0, so that branch is
  not compiled.
\<close>

definition isDeviceSuitable ::
  "bool \<Rightarrow> (handle \<Rightarrow> VkPhysicalDeviceProperties) \<Rightarrow> handle \<Rightarrow> bool" where
  "isDeviceSuitable apple props device =
     (if device = VK_NULL_HANDLE then False
      else
        let properties = props device;
            is_apple_silicon = (deviceName properties = APPLE_M1_NAME \<or>
                                deviceName properties = APPLE_M2_NAME);
            is_discrete_gpu = (deviceType properties = VK_PHYSICAL_DEVICE_TYPE_DISCRETE_GPU)
        in if apple then is_apple_silicon \<or> is_discrete_gpu else is_discrete_gpu)"

text \<open>The \<open>for (const auto& device : devices)\<close> loop of \<open>listDevices\<close>.\<close>

fun listDevices_loop ::
  "bool \<Rightarrow> (handle \<Rightarrow> VkPhysicalDeviceProperties) \<Rightarrow> handle list \<Rightarrow> handle option" where
  "listDevices_loop apple props [] = None"
| "listDevices_loop apple props (device # devices) =
     (if isDeviceSuitable apple props device then Some device
      else listDevices_loop apple props devices)"

text \<open>
  \<open>Device::listDevices\<close>; \<open>devices\<close> is what \<open>vkEnumeratePhysicalDevices\<close> enumerates.
\<close>

definition listDevices ::
  "bool \<Rightarrow> (handle \<Rightarrow> VkPhysicalDeviceProperties) \<Rightarrow> handle list \<Rightarrow> Device \<Rightarrow> error + Device" where
  "listDevices apple props devices dev =
     (if length devices = 0 then Inl (Error ''no supported physical device'')
      else case listDevices_loop apple props devices of
             Some device \<Rightarrow> Ok (dev\<lparr>m_physical_device := device\<rparr>)
           | None \<Rightarrow> Inl (Error ''no suitable physical device''))"





text \<open>
  The inner loop of \<open>createLogicalDevice\<close>: \<open>i\<close> runs over the families, \<open>first_index\<close>
  is set to \<open>i\<close> at every iteration, a family in \<open>took_indices\<close> is skipped, and the loop
  breaks at the first family that has the flag. The list argument is the part of
  \<open>m_queue_support\<close> from position \<open>i\<close> on. (\<open>i\<close> is an \<open>int\<close> and \<open>first_index\<close> a
  \<open>uint32_t\<close> in the source; both stay below the number of families.)
\<close>

fun first_index_loop :: "int list \<Rightarrow> int list \<Rightarrow> int \<Rightarrow> nat \<Rightarrow> nat \<Rightarrow> nat" where
  "first_index_loop took_indices [] supported_flag i first_index = first_index"
| "first_index_loop took_indices (s # ss) supported_flag i first_index =
     (if int i \<in> set took_indices
      then first_index_loop took_indices ss supported_flag (i + 1) i
      else if s AND supported_flag \<noteq> 0 then i
      else first_index_loop took_indices ss supported_flag (i + 1) i)"

record VkDeviceQueueCreateInfo =
  queueFamilyIndex :: "32 word"
  queueCount :: "32 word"

text \<open>
  The outer loop over \<open>supported_flags\<close>; the state it threads is \<open>took_indices\<close>,
  \<open>queue_index\<close>, the \<open>queues\<close> vector and the device.
\<close>

fun assign_queues ::
  "int list \<Rightarrow> int list \<Rightarrow> nat \<Rightarrow> VkDeviceQueueCreateInfo list \<Rightarrow> Device
     \<Rightarrow> error + (VkDeviceQueueCreateInfo list \<times> Device)" where
  "assign_queues [] took_indices queue_index queues dev = Ok (queues, dev)"
| "assign_queues (supported_flag # flags) took_indices queue_index queues dev =
     (let first_index = first_index_loop took_indices (m_queue_support dev) supported_flag 0 0;
          took_indices = took_indices[queue_index := int first_index]
      in if first_index \<ge> length (m_queue_support dev)
         then Inl (Error ''No any READY queue for the physical device'')
         else
           let dev = dev\<lparr>m_queue_states := (m_queue_states dev)[first_index := USED]\<rparr>;
               queue_create_info = \<lparr>queueFamilyIndex = of_nat first_index, queueCount = 1\<rparr>;
               queues = queues[queue_index := queue_create_info]
           in if supported_flag = GRAPHICS
              then assign_queues flags took_indices (queue_index + 1) queues
                     (dev\<lparr>m_graphics_queue_family_index := of_nat first_index\<rparr>)
              else if supported_flag = PRESENTS
              then assign_queues flags took_indices (queue_index + 1) queues
                     (dev\<lparr>m_presents_queue_family_index := of_nat first_index\<rparr>)
              else if supported_flag = TRANSFERT
              then assign_queues flags took_indices (queue_index + 1) queues
                     (dev\<lparr>m_transfert_queue_family_index := of_nat first_index\<rparr>)
              else Inl (Error ''found unknown flag for SupportFeatures''))"

text \<open>
  \<open>Device::createLogicalDevice\<close>. \<open>asserts\<close> says whether \<open>assert\<close> is compiled in;
  \<open>vkCreateDevice\<close> and \<open>vkGetDeviceQueue\<close> are the driver.
\<close>

definition createLogicalDevice ::
  "bool \<Rightarrow> (VkDeviceQueueCreateInfo list \<Rightarrow> VkResult \<times> handle) \<Rightarrow> (handle \<Rightarrow> 32 word \<Rightarrow> handle)
     \<Rightarrow> Device \<Rightarrow> error + Device" where
  "createLogicalDevice asserts vkCreateDevice vkGetDeviceQueue dev =
     (if asserts \<and> m_physical_device dev = VK_NULL_HANDLE then Inl AssertionFailed
      else if VK_NULL_HANDLE = m_physical_device dev
      then Inl (Error ''The physical device has not been setup'')
      else
        case assign_queues [GRAPHICS, PRESENTS, TRANSFERT] [-1, -1, -1] 0
               (replicate 3 \<lparr>queueFamilyIndex = 0, queueCount = 0\<rparr>) dev of
          Inl e \<Rightarrow> Inl e
        | Inr (queues, dev) \<Rightarrow>
            (case vkCreateDevice queues of
               (result_status, logical_device) \<Rightarrow>
                 if result_status \<noteq> VK_SUCCESS
                 then Inl (Error ''Cannot create the logical device'')
                 else
                   let dev = dev\<lparr>m_logical_device := logical_device\<rparr>
                   in Ok (dev\<lparr>m_graphics_queue :=
                                  vkGetDeviceQueue logical_device (m_graphics_queue_family_index dev),
                               m_presents_queue :=
                                  vkGetDeviceQueue logical_device (m_presents_queue_family_index dev),
                               m_transfert_queue :=
                                  vkGetDeviceQueue logical_device (m_transfert_queue_family_index dev)\<rparr>)))"

section \<open>Swapchain (app/swapchain.hpp, app/swapchain.cpp, project.hpp)\<close>

datatype VkFormat =
    VK_FORMAT_UNDEFINED
  | VK_FORMAT_R8G8B8A8_UNORM
  | VK_FORMAT_R8G8B8A8_SRGB
  | VK_FORMAT_B8G8R8A8_UNORM
  | VK_FORMAT_B8G8R8A8_SRGB
  | VK_FORMAT_OTHER nat

datatype VkColorSpaceKHR =
    VK_COLORSPACE_SRGB_NONLINEAR_KHR
  | VK_COLOR_SPACE_DISPLAY_P3_NONLINEAR_EXT
  | VK_COLOR_SPACE_EXTENDED_SRGB_LINEAR_EXT
  | VK_COLOR_SPACE_OTHER nat

datatype VkPresentModeKHR =
    VK_PRESENT_MODE_IMMEDIATE_KHR
  | VK_PRESENT_MODE_MAILBOX_KHR
  | VK_PRESENT_MODE_FIFO_KHR
  | VK_PRESENT_MODE_FIFO_RELAXED_KHR

datatype VkSharingMode = VK_SHARING_MODE_EXCLUSIVE | VK_SHARING_MODE_CONCURRENT

record VkSurfaceFormatKHR =
  format :: VkFormat
  colorSpace :: VkColorSpaceKHR

record VkExtent2D =
  width :: "32 word"
  height :: "32 word"

record VkSurfaceCapabilitiesKHR =
  minImageCount :: "32 word"
  maxImageCount :: "32 word"
  minImageExtent :: VkExtent2D
  maxImageExtent :: VkExtent2D
  currentTransform :: "32 word"

record SwapChainSupportDetails =
  capabilities :: VkSurfaceCapabilitiesKHR
  formats :: "VkSurfaceFormatKHR list"
  present_modes :: "VkPresentModeKHR list"

record VkSwapchainCreateInfoKHR =
  info_minImageCount :: "32 word"
  imageFormat :: VkFormat
  imageColorSpace :: VkColorSpaceKHR
  imageExtent :: VkExtent2D
  imageArrayLayers :: "32 word"
  imageSharingMode :: VkSharingMode
  queueFamilyIndexCount :: "32 word"
  pQueueFamilyIndices :: "32 word list option"
  preTransform :: "32 word"
  presentMode :: VkPresentModeKHR
  oldSwapchain :: handle

record SwapChain =
  m_swapchain :: handle
  m_details :: SwapChainSupportDetails
  m_images :: "handle list"
  m_format :: VkSurfaceFormatKHR
  m_extent :: VkExtent2D
  m_present_mode :: VkPresentModeKHR

text \<open>
  What the three \<open>vkGetPhysicalDeviceSurface...KHR\<close> queries report for the current
  (physical device, surface) pair.
\<close>

record Surface =
  surface_capabilities :: VkSurfaceCapabilitiesKHR
  surface_formats :: "VkSurfaceFormatKHR list"
  surface_present_modes :: "VkPresentModeKHR list"

definition MAX_BUFFERS :: "8 word" where
  "MAX_BUFFERS = 3"

definition FPS_LIMIT_60 :: "8 word" where
  "FPS_LIMIT_60 = 60"

text \<open>
  \<open>Project::APPLICATION_FPS_LIMIT\<close>; \<open>unset_fps_limit\<close> is the compile-time macro
  \<open>UNSET_FPS_LIMIT\<close>.
\<close>

definition APPLICATION_FPS_LIMIT :: "bool \<Rightarrow> 8 word option" where
  "APPLICATION_FPS_LIMIT unset_fps_limit = (if unset_fps_limit then None else Some FPS_LIMIT_60)"

definition PREFERED_SURFACE_FORMAT :: VkFormat where
  "PREFERED_SURFACE_FORMAT = VK_FORMAT_B8G8R8A8_SRGB"

definition PREFERED_COLOR_SPACE_FORMAT :: VkColorSpaceKHR where
  "PREFERED_COLOR_SPACE_FORMAT = VK_COLORSPACE_SRGB_NONLINEAR_KHR"

definition PREFERED_PRESENTATION_MODE :: "bool \<Rightarrow> VkPresentModeKHR" where
  "PREFERED_PRESENTATION_MODE unset_fps_limit =
     (if APPLICATION_FPS_LIMIT unset_fps_limit \<noteq> None
      then VK_PRESENT_MODE_FIFO_KHR else VK_PRESENT_MODE_IMMEDIATE_KHR)"

text \<open>The loop of \<open>chooseFormat\<close>.\<close>

fun chooseFormat_loop :: "VkSurfaceFormatKHR list \<Rightarrow> VkSurfaceFormatKHR option" where
  "chooseFormat_loop [] = None"
| "chooseFormat_loop (f # fs) =
     (if format f = PREFERED_SURFACE_FORMAT \<and> colorSpace f = PREFERED_COLOR_SPACE_FORMAT
      then Some f else chooseFormat_loop fs)"

text \<open>
  \<open>chooseFormat\<close>: the preferred entry, else \<open>formats[0]\<close>, which is undefined behaviour on
  an empty vector.
\<close>

definition chooseFormat :: "VkSurfaceFormatKHR list \<Rightarrow> error + VkSurfaceFormatKHR" where
  "chooseFormat fs =
     (case chooseFormat_loop fs of
        Some f \<Rightarrow> Ok f
      | None \<Rightarrow> (case fs of [] \<Rightarrow> Inl UndefinedBehaviour | f # _ \<Rightarrow> Ok f))"

text \<open>\<open>choosePresentMode\<close>: the loop returns at the first mode equal to the preferred one.\<close>

fun choosePresentMode :: "bool \<Rightarrow> VkPresentModeKHR list \<Rightarrow> error + VkPresentModeKHR" where
  "choosePresentMode unset_fps_limit [] =
     Inl (Error ''Our prefered presentation mode is not found'')"
| "choosePresentMode unset_fps_limit (mode # modes) =
     (if mode = PREFERED_PRESENTATION_MODE unset_fps_limit then Ok mode
      else choosePresentMode unset_fps_limit modes)"

text \<open>\<open>std::clamp(v, lo, hi)\<close>; its behaviour is undefined when \<open>hi < lo\<close>.\<close>

definition clamp :: "32 word \<Rightarrow> 32 word \<Rightarrow> 32 word \<Rightarrow> error + 32 word" where
  "clamp v lo hi =
     (if hi < lo then Inl UndefinedBehaviour
      else Ok (if v < lo then lo else if hi < v then hi else v))"

text \<open>
  \<open>chooseSwapExtent\<close>; the two words are the window's framebuffer size after
  \<open>static_cast<uint32_t>\<close>.
\<close>

definition chooseSwapExtent ::
  "32 word \<Rightarrow> 32 word \<Rightarrow> VkSurfaceCapabilitiesKHR \<Rightarrow> error + VkExtent2D" where
  "chooseSwapExtent window_width window_height caps =
     (case clamp window_width (width (minImageExtent caps)) (width (maxImageExtent caps)) of
        Inl e \<Rightarrow> Inl e
      | Inr final_width \<Rightarrow>
          (case clamp window_height (height (minImageExtent caps))
                  (height (maxImageExtent caps)) of
             Inl e \<Rightarrow> Inl e
           | Inr final_height \<Rightarrow> Ok \<lparr>width = final_width, height = final_height\<rparr>))"

text \<open>
  \<open>SwapChain::queryDetails\<close>. \<open>getSurface()\<close> is a pointer; when it is null the function
  returns without touching \<open>m_details\<close> (after the \<open>assert\<close>, if compiled in). The format
  and present-mode vectors are filled only when the reported count is positive.
\<close>

definition queryDetails :: "bool \<Rightarrow> Surface option \<Rightarrow> SwapChain \<Rightarrow> error + SwapChain" where
  "queryDetails asserts surface sc =
     (case surface of
        None \<Rightarrow> if asserts then Inl AssertionFailed else Ok sc
      | Some s \<Rightarrow>
          Ok (sc\<lparr>m_details :=
                 \<lparr>capabilities = surface_capabilities s,
                  formats = (if length (surface_formats s) > 0 then surface_formats s else []),
                  present_modes =
                    (if length (surface_present_modes s) > 0 then surface_present_modes s else [])\<rparr>\<rparr>))"

text \<open>\<open>SwapChain::checkDetails\<close>; \<open>MAX_BUFFERS\<close> (a \<open>uint8_t\<close>) is promoted for the comparisons.\<close>

definition checkDetails :: "SwapChain \<Rightarrow> VResult" where
  "checkDetails sc =
     (if (minImageCount (capabilities (m_details sc)) \<le> ucast MAX_BUFFERS \<and>
          maxImageCount (capabilities (m_details sc)) \<ge> ucast MAX_BUFFERS) \<and>
         (formats (m_details sc) \<noteq> [] \<and> present_modes (m_details sc) \<noteq> []) \<and>
         (minImageCount (capabilities (m_details sc)) > 0)
      then Ok ()
      else Inl (Error ''The supported images count is incorrect''))"

text \<open>
  \<open>indices[0] == indices[1] == indices[2]\<close>: C++ parses it as
  \<open>(indices[0] == indices[1]) == indices[2]\<close>; the \<open>bool\<close> on the left is converted to
  0 or 1 and compared with the third index.
\<close>

definition is_exclusive :: "32 word \<Rightarrow> 32 word \<Rightarrow> 32 word \<Rightarrow> bool" where
  "is_exclusive i0 i1 i2 = ((if i0 = i1 then 1 else 0) = i2)"

text \<open>
  The part of \<open>SwapChain::create\<close> that fills \<open>create_info\<close>. The two \<open>assert\<close>s stop
  the program when they are compiled in.
\<close>

definition build_create_info ::
  "bool \<Rightarrow> Device \<Rightarrow> SwapChain \<Rightarrow> error + VkSwapchainCreateInfoKHR" where
  "build_create_info asserts dev sc =
     (let indices = [m_graphics_queue_family_index dev,
                     m_presents_queue_family_index dev,
                     m_transfert_queue_family_index dev];
          exclusive = is_exclusive (indices ! 0) (indices ! 1) (indices ! 2);
          sharing = (if exclusive then VK_SHARING_MODE_EXCLUSIVE else VK_SHARING_MODE_CONCURRENT)
      in if asserts \<and> exclusive then Inl AssertionFailed
         else if asserts \<and> sharing \<noteq> VK_SHARING_MODE_CONCURRENT then Inl AssertionFailed
         else Ok \<lparr>info_minImageCount = ucast MAX_BUFFERS,
                  imageFormat = format (m_format sc),
                  imageColorSpace = colorSpace (m_format sc),
                  imageExtent = m_extent sc,
                  imageArrayLayers = 1,
                  imageSharingMode = sharing,
                  queueFamilyIndexCount = (if exclusive then 0 else 3),
                  pQueueFamilyIndices = (if exclusive then None else Some indices),
                  preTransform = currentTransform (capabilities (m_details sc)),
                  presentMode = m_present_mode sc,
                  oldSwapchain = VK_NULL_HANDLE\<rparr>)"

text \<open>
  \<open>SwapChain::create\<close>. \<open>vkCreateSwapchainKHR\<close> and \<open>vkGetSwapchainImagesKHR\<close> are
  the driver.
\<close>

definition swapchain_error_msg :: "VkResult \<Rightarrow> string" where
  "swapchain_error_msg result =
     (case result of
        VK_ERROR_OUT_OF_HOST_MEMORY \<Rightarrow> ''out of host memory''
      | VK_ERROR_OUT_OF_DEVICE_MEMORY \<Rightarrow> ''out of device memory''
      | VK_ERROR_DEVICE_LOST \<Rightarrow> ''device lost''
      | VK_ERROR_SURFACE_LOST_KHR \<Rightarrow> ''surface lost''
      | VK_ERROR_NATIVE_WINDOW_IN_USE_KHR \<Rightarrow> ''native window in use''
      | VK_ERROR_INITIALIZATION_FAILED \<Rightarrow> ''initialization failed''
      | _ \<Rightarrow> ''undocumented error'')"

definition create ::
  "bool \<Rightarrow> bool \<Rightarrow> 32 word \<Rightarrow> 32 word \<Rightarrow> (VkSwapchainCreateInfoKHR \<Rightarrow> VkResult \<times> handle)
     \<Rightarrow> (handle \<Rightarrow> handle list) \<Rightarrow> Device \<Rightarrow> SwapChain \<Rightarrow> error + SwapChain" where
  "create asserts unset_fps_limit window_width window_height vkCreateSwapchainKHR
       vkGetSwapchainImagesKHR dev sc =
     (case checkDetails sc of
        Inl e \<Rightarrow> Inl e
      | Inr _ \<Rightarrow>
     (case chooseFormat (formats (m_details sc)) of
        Inl UndefinedBehaviour \<Rightarrow> Inl UndefinedBehaviour
      | Inl _ \<Rightarrow> Inl (Error ''Did not found any good format for the swapchain'')
      | Inr format_result \<Rightarrow>
     (case choosePresentMode unset_fps_limit (present_modes (m_details sc)) of
        Inl _ \<Rightarrow> Inl (Error ''Did not found any good presentation mode for the swapchain'')
      | Inr present_mode_result \<Rightarrow>
     (case chooseSwapExtent window_width window_height (capabilities (m_details sc)) of
        Inl UndefinedBehaviour \<Rightarrow> Inl UndefinedBehaviour
      | Inl _ \<Rightarrow> Inl (Error ''Did not found any good extent for the swapchain'')
      | Inr swap_extent_result \<Rightarrow>
          let sc = sc\<lparr>m_present_mode := present_mode_result,
                      m_format := format_result,
                      m_extent := swap_extent_result\<rparr>
          in (case build_create_info asserts dev sc of
                Inl e \<Rightarrow> Inl e
              | Inr create_info \<Rightarrow>
                  (case vkCreateSwapchainKHR create_info of
                     (result, swapchain) \<Rightarrow>
                       if result = VK_SUCCESS
                       then Ok (sc\<lparr>m_swapchain := swapchain,
                                    m_images := vkGetSwapchainImagesKHR swapchain\<rparr>)
                       else Inl (Error (swapchain_error_msg result))))))))"



section \<open>Buffers (app/memory.hpp)\<close>

definition VK_BUFFER_USAGE_TRANSFER_SRC_BIT :: "32 word" where
  "VK_BUFFER_USAGE_TRANSFER_SRC_BIT = 1"
definition VK_BUFFER_USAGE_TRANSFER_DST_BIT :: "32 word" where
  "VK_BUFFER_USAGE_TRANSFER_DST_BIT = 2"
definition VK_BUFFER_USAGE_INDEX_BUFFER_BIT :: "32 word" where
  "VK_BUFFER_USAGE_INDEX_BUFFER_BIT = 64"
definition VK_BUFFER_USAGE_VERTEX_BUFFER_BIT :: "32 word" where
  "VK_BUFFER_USAGE_VERTEX_BUFFER_BIT = 128"

text \<open>
  \<open>Memory::initBuffer\<close>: \<open>vmaCreateBuffer\<close> is the allocator, which reports a result, the
  buffer and its allocation.
\<close>

definition initBuffer ::
  "(nat \<Rightarrow> 32 word \<Rightarrow> VkResult \<times> handle \<times> handle) \<Rightarrow> nat \<Rightarrow> 32 word \<Rightarrow> vk_call list
     \<Rightarrow> (error + handle \<times> handle) \<times> vk_call list" where
  "initBuffer vmaCreateBuffer buffer_size buffer_usage calls =
     (case vmaCreateBuffer buffer_size buffer_usage of
        (result, buffer, allocation) \<Rightarrow>
          (if result \<noteq> VK_SUCCESS
           then Inl (Error ''vkCreateBuffer: cannot initiate the buffer'')
           else Ok (buffer, allocation),
           calls @ [VmaCreateBuffer buffer_size buffer_usage]))"

text \<open>
  \<open>Memory::copyBuffer\<close>: a one-shot command buffer from the transfer pool that copies
  \<open>copy_size\<close> bytes (\<open>size\<close> in the source); \<open>vkAllocateCommandBuffers\<close> is the driver's answer.
\<close>

definition copyBuffer :: "VkResult \<Rightarrow> handle \<Rightarrow> handle \<Rightarrow> nat \<Rightarrow> vk_call list \<Rightarrow> VResult \<times> vk_call list" where
  "copyBuffer vkAllocateCommandBuffers src dst copy_size calls =
     (if vkAllocateCommandBuffers \<noteq> VK_SUCCESS
      then (Inl (Error ''vkAllocateCommandBuffers failed: cannot allocate memory for the dst buffer''),
            calls)
      else (Ok (), calls @ [VkCmdCopyBuffer src dst copy_size]))"

section \<open>Pipeline (app/pipeline.hpp, app/pipeline.cpp)\<close>

text \<open>
  The members of \<open>Pipeline\<close> that its destructor and the buffer functions read or write.
  The three sync objects are pointers (\<open>None\<close> is \<open>nullptr\<close>) to native handles.
\<close>

record Pipeline =
  m_shader_modules :: "handle list"
  m_layout :: handle
  m_render_pass :: handle
  m_pipeline :: handle
  m_vertex_buffer :: handle
  m_vertex_buffer_allocation :: handle
  m_index_buffer :: handle
  m_index_buffer_allocation :: handle
  m_sync_image_ready :: "handle option"
  m_sync_present_done :: "handle option"
  m_sync_cpu_gpu :: "handle option"












text \<open>
  The native calls of one run of the body, in order: one call for each object that the
  pipeline holds.
\<close>

definition Pipeline_dtor_calls :: "Pipeline \<Rightarrow> vk_call list" where
  "Pipeline_dtor_calls p =
     map VkDestroyShaderModule (m_shader_modules p)
     @ (if VK_NULL_HANDLE \<noteq> m_render_pass p
        then [VkDestroyRenderPass (m_render_pass p)] else [])
     @ (if VK_NULL_HANDLE \<noteq> m_layout p then [VkDestroyPipelineLayout (m_layout p)] else [])
     @ (if VK_NULL_HANDLE \<noteq> m_vertex_buffer p
        then [VmaDestroyBuffer (m_vertex_buffer p) (m_vertex_buffer_allocation p)] else [])
     @ (if VK_NULL_HANDLE \<noteq> m_index_buffer p
        then [VmaDestroyBuffer (m_index_buffer p) (m_index_buffer_allocation p)] else [])
     @ (if VK_NULL_HANDLE \<noteq> m_pipeline p then [VkDestroyPipeline (m_pipeline p)] else [])
     @ (case m_sync_image_ready p of Some s \<Rightarrow> [VkDestroySemaphore s] | None \<Rightarrow> [])
     @ (case m_sync_present_done p of Some s \<Rightarrow> [VkDestroySemaphore s] | None \<Rightarrow> [])
     @ (case m_sync_cpu_gpu p of Some f \<Rightarrow> [VkDestroyFence f] | None \<Rightarrow> [])"


text \<open>
  \<open>Pipeline::createVertexBuffer\<close> and \<open>Pipeline::createIndexBuffer\<close>. After the
  destruction of the previous buffer, everything up to \<open>return utils::VResult::Ok()\<close> is
  commented out in the source (the staging buffer, the mapped copy, \<open>Memory::initBuffer\<close>
  for the device buffer and \<open>Memory::copyBuffer\<close>); \<open>buffer_size\<close> is the constant 0 and
  is not used. The \<open>assert\<close> on the transfer pool compares the address of a member with
  \<open>nullptr\<close> and cannot fail.
\<close>

definition createVertexBuffer :: "Pipeline \<Rightarrow> vk_call list \<Rightarrow> VResult \<times> Pipeline \<times> vk_call list" where
  "createVertexBuffer p calls =
     (let (p, calls) = (if VK_NULL_HANDLE \<noteq> m_vertex_buffer p
                        then (p\<lparr>m_vertex_buffer := VK_NULL_HANDLE,
                                 m_vertex_buffer_allocation := VK_NULL_HANDLE\<rparr>,
                              calls @ [VmaDestroyBuffer (m_vertex_buffer p)
                                         (m_vertex_buffer_allocation p)])
                        else (p, calls))
      in (Ok (), p, calls))"

definition createIndexBuffer :: "Pipeline \<Rightarrow> vk_call list \<Rightarrow> VResult \<times> Pipeline \<times> vk_call list" where
  "createIndexBuffer p calls =
     (let (p, calls) = (if VK_NULL_HANDLE \<noteq> m_index_buffer p
                        then (p\<lparr>m_index_buffer := VK_NULL_HANDLE,
                                 m_index_buffer_allocation := VK_NULL_HANDLE\<rparr>,
                              calls @ [VmaDestroyBuffer (m_index_buffer p)
                                         (m_index_buffer_allocation p)])
                        else (p, calls))
      in (Ok (), p, calls))"

section \<open>Command (app/command.hpp, app/command.cpp)\<close>




text \<open>The commands \<open>record\<close> writes into the command buffer.\<close>

datatype cmd =
    CmdBeginRenderPass handle handle VkExtent2D
  | CmdBindPipeline handle
  | CmdSetViewport VkExtent2D
  | CmdSetScissor VkExtent2D
  | CmdBindVertexBuffers "handle list" "64 word list"
  | CmdBindIndexBuffer handle "64 word"
  | CmdDrawIndexed "32 word" "32 word" "32 word" "32 word" "32 word"
  | CmdEndRenderPass

text \<open>What \<open>record\<close> reads through the engine, render and swapchain singletons.\<close>

record RecordInputs =
  in_frame_index :: "32 word"
  in_framebuffers :: "handle list"
  in_render_pass :: handle
  in_pipeline :: handle
  in_extent :: VkExtent2D
  in_vertex_buffer :: handle
  in_index_buffer :: handle

text \<open>
  \<open>Command::record\<close>. \<open>overlay\<close> is \<open>None\<close> in a build without \<open>IMGUI\<close>; in a build
  with it, it is the list of commands that \<open>ImGui_ImplVulkan_RenderDrawData\<close> (code outside
  this repository) records into the same command buffer for the current draw data, before
  the render pass ends. \<open>begin_result_code\<close> and \<open>end_result_code\<close> are what \<open>vkBeginCommandBuffer\<close> and
  \<open>vkEndCommandBuffer\<close> report. The result is the \<open>VResult\<close> and the content of the
  command buffer, which was reset first. The arguments of \<open>CmdDrawIndexed\<close> are
  \<open>indexCount\<close>, \<open>instanceCount\<close>, \<open>firstIndex\<close>, \<open>vertexOffset\<close>, \<open>firstInstance\<close>.
\<close>

definition Command_record ::
  "cmd list option \<Rightarrow> VkResult \<Rightarrow> VkResult \<Rightarrow> RecordInputs \<Rightarrow> VResult \<times> cmd list" where
  "Command_record overlay begin_result_code end_result_code inp =
     (let swapchain_index = in_frame_index inp
      in if begin_result_code \<noteq> VK_SUCCESS
         then (Inl (Error ''< Error creating the command buffer''), [])
         else
           let framebuffers = in_framebuffers inp
           in if unat swapchain_index \<ge> length framebuffers
              then (Inl (Error ''< The swapchain_index parameter is incorrect: not enough framebuffers''),
                    [])
              else
                let vertex_buffers = [in_vertex_buffer inp];
                    memory_offsets = map of_nat [0 ..< length vertex_buffers];
                    indices_size = 0;
                    cmds =
                      [CmdBeginRenderPass (in_render_pass inp)
                         (framebuffers ! unat swapchain_index) (in_extent inp),
                       CmdBindPipeline (in_pipeline inp),
                       CmdSetViewport (in_extent inp),
                       CmdSetScissor (in_extent inp),
                       CmdBindVertexBuffers vertex_buffers memory_offsets,
                       CmdBindIndexBuffer (in_index_buffer inp) 0,
                       CmdDrawIndexed indices_size 1 0 0 0]
                      @ (case overlay of None \<Rightarrow> [] | Some draw_data_cmds \<Rightarrow> draw_data_cmds)
                      @ [CmdEndRenderPass]
                in if end_result_code \<noteq> VK_SUCCESS
                   then (Inl (Error ''< Error recording the command buffer''), cmds)
                   else (Ok (), cmds))"

text \<open>The indexed draws in a command buffer.\<close>

fun is_draw_indexed :: "cmd \<Rightarrow> bool" where
  "is_draw_indexed (CmdDrawIndexed _ _ _ _ _) = True"
| "is_draw_indexed _ = False"

section \<open>Frame loop (app/render.cpp, app/pipeline.cpp, utils/timer.h, application.cpp)\<close>

record Render =
  m_frame_index :: "32 word"
  m_framebuffers :: "handle list"

text \<open>
  \<open>Render::updateFrameIndex\<close>: the cast to \<open>uint32_t\<close> applies to \<open>current_frame\<close>, before
  the remainder; the remainder by zero is undefined.
\<close>

definition updateFrameIndex :: "64 word \<Rightarrow> Render \<Rightarrow> error + Render" where
  "updateFrameIndex current_frame r =
     (if length (m_framebuffers r) = 0 then Inl UndefinedBehaviour
      else Ok (r\<lparr>m_frame_index :=
                   of_nat (unat (ucast current_frame :: 32 word) mod length (m_framebuffers r))\<rparr>))"

text \<open>
  \<open>Pipeline::acquireImage\<close> passes the address of the frame index to
  \<open>vkAcquireNextImageKHR\<close>; \<open>acquired\<close> is the image index the driver writes there
  (\<open>None\<close> when the call fails and writes nothing). \<open>draw\<close> and \<open>present\<close> read the frame
  index and do not write it.
\<close>

definition acquireImage :: "32 word option \<Rightarrow> Render \<Rightarrow> Render" where
  "acquireImage acquired r =
     (case acquired of Some image_index \<Rightarrow> r\<lparr>m_frame_index := image_index\<rparr> | None \<Rightarrow> r)"

text \<open>
  Time is the reading of \<open>NOW_MS\<close>, milliseconds since the epoch, far below \<open>2^63\<close>; a
  clock is the list of the readings that successive evaluations of \<open>NOW_MS\<close> return.
\<close>

text \<open>\<open>Timer::diff\<close>, a \<open>uint64_t\<close> subtraction.\<close>

definition Timer_diff :: "nat \<Rightarrow> nat \<Rightarrow> nat" where
  "Timer_diff m_begin now = (now + 2 ^ 64 - m_begin) mod 2 ^ 64"

text \<open>
  \<open>Timer::block_until\<close> polls the clock until a reading reaches \<open>time_limit\<close> and returns
  the readings not yet consumed; \<open>None\<close> when the readings given end before it returns.
\<close>

fun block_until :: "nat \<Rightarrow> nat list \<Rightarrow> nat list option" where
  "block_until time_limit [] = None"
| "block_until time_limit (now # clock) =
     (if now \<ge> time_limit then Some clock else block_until time_limit clock)"

text \<open>\<open>Timer::get_time_limit\<close>, on \<open>double\<close>.\<close>

definition get_time_limit :: "nat \<Rightarrow> real \<Rightarrow> real" where
  "get_time_limit now ms_to_add = real now + ms_to_add"

text \<open>\<open>static_cast<uint64_t>\<close> of a non-negative \<open>double\<close> in range: truncation.\<close>

definition to_uint64 :: "real \<Rightarrow> nat" where
  "to_uint64 x = nat \<lfloor>x\<rfloor>"

definition FPS_RECORDS :: nat where
  "FPS_RECORDS = 10"

record Application =
  m_current_frame :: "64 word"
  m_FPS_limit :: "8 word option"
  recorded_frames :: "nat list"
  recorded_frames_index :: "8 word"
  m_render :: Render

text \<open>
  The lines both branches of \<open>drawFrame\<close> share: the timer around acquire, draw and
  present (\<open>t_begin\<close> and \<open>t_end\<close> are its two readings), and the record of the duration.
\<close>

definition render_timed :: "Application \<Rightarrow> 32 word option \<Rightarrow> nat \<Rightarrow> nat \<Rightarrow> Application" where
  "render_timed app acquired t_begin t_end =
     (let render = acquireImage acquired (m_render app);
          rendering_time_diff = Timer_diff t_begin t_end
      in app\<lparr>m_render := render,
             recorded_frames :=
               (recorded_frames app)[unat (recorded_frames_index app) :=
                  (if rendering_time_diff > 0 then rendering_time_diff else 1)],
             recorded_frames_index :=
               of_nat ((unat (recorded_frames_index app) + 1) mod FPS_RECORDS)\<rparr>)"

text \<open>The last two lines of both branches: \<open>updateFrameIndex(m_current_frame); ++m_current_frame\<close>.\<close>

definition end_frame :: "Application \<Rightarrow> error + Application" where
  "end_frame app =
     (case updateFrameIndex (m_current_frame app) (m_render app) of
        Inl e \<Rightarrow> Inl e
      | Inr render \<Rightarrow> Ok (app\<lparr>m_render := render, m_current_frame := m_current_frame app + 1\<rparr>))"

text \<open>
  \<open>Application::drawFrame\<close>. The clock is consumed in the order of the source: the
  reading for the deadline, the two readings of the render timer, then the polls of
  \<open>block_until\<close>. \<open>1000.0f / cap\<close> is taken exactly: the rounding of the quotient to
  \<open>float\<close> and of the sum to \<open>double\<close> is below \<open>1/1000\<close> for readings below \<open>2^43\<close>,
  while \<open>1000 / cap\<close> is a whole number or at least \<open>1/255\<close> away from one, so it does not
  change the truncated deadline. A cap of 0 divides by zero and casts an infinity.
  \<open>None\<close>: the readings given end before \<open>drawFrame\<close> returns.
\<close>

definition drawFrame ::
  "Application \<Rightarrow> 32 word option \<Rightarrow> nat list \<Rightarrow> (error + Application \<times> nat list) option" where
  "drawFrame app acquired clock =
     (case m_FPS_limit app of
        Some limit \<Rightarrow>
          if limit = 0 then Some (Inl UndefinedBehaviour)
          else
            (case clock of
               t0 # t1 # t2 # clock \<Rightarrow>
                 let wait_ms = 1000 / real (unat limit);
                     wait_until_ms = get_time_limit t0 wait_ms;
                     app = render_timed app acquired t1 t2
                 in (case block_until (to_uint64 wait_until_ms) clock of
                       None \<Rightarrow> None
                     | Some clock \<Rightarrow>
                         Some (case end_frame app of
                                 Inl e \<Rightarrow> Inl e
                               | Inr app \<Rightarrow> Ok (app, clock)))
             | _ \<Rightarrow> None)
      | None \<Rightarrow>
          (case clock of
             t1 # t2 # clock \<Rightarrow>
               Some (case end_frame (render_timed app acquired t1 t2) of
                       Inl e \<Rightarrow> Inl e
                     | Inr app \<Rightarrow> Ok (app, clock))
           | _ \<Rightarrow> None))"

text \<open>
  The loop of \<open>Application::run\<close> for as many frames as there are acquire results.
\<close>

fun run_frames ::
  "Application \<Rightarrow> 32 word option list \<Rightarrow> nat list \<Rightarrow> (error + Application \<times> nat list) option" where
  "run_frames app [] clock = Some (Ok (app, clock))"
| "run_frames app (acquired # rest) clock =
     (case drawFrame app acquired clock of
        None \<Rightarrow> None
      | Some (Inl e) \<Rightarrow> Some (Inl e)
      | Some (Inr (app, clock)) \<Rightarrow> run_frames app rest clock)"

text \<open>
  The application when the loop starts: frame counter 1, frame index 0, the framebuffers
  created; the \<open>FPS_RECORDS\<close> duration records are not initialised by the source, so their
  content is a parameter.
\<close>

definition initial_Application :: "8 word option \<Rightarrow> handle list \<Rightarrow> nat list \<Rightarrow> Application" where
  "initial_Application fps_limit framebuffers records =
     \<lparr>m_current_frame = 1, m_FPS_limit = fps_limit, recorded_frames = records,
      recorded_frames_index = 0,
      m_render = \<lparr>m_frame_index = 0, m_framebuffers = framebuffers\<rparr>\<rparr>"

section \<open>Sequences of calls and concrete inputs\<close>

text \<open>
  \<open>queryDetails()\<close> followed immediately by \<open>checkDetails()\<close>, as
  \<open>Engine::createSwapChain\<close> runs them (\<open>create\<close> starts with \<open>checkDetails\<close>).
\<close>

definition query_then_check :: "bool \<Rightarrow> Surface option \<Rightarrow> SwapChain \<Rightarrow> VResult" where
  "query_then_check asserts surface sc =
     (case queryDetails asserts surface sc of Inl e \<Rightarrow> Inl e | Inr sc' \<Rightarrow> checkDetails sc')"

text \<open>A machine with an integrated GPU enumerated before two discrete ones.\<close>

definition two_gpus_props :: "handle \<Rightarrow> VkPhysicalDeviceProperties" where
  "two_gpus_props device =
     (if device = 1
      then \<lparr>deviceName = ''Integrated'', deviceID = 1,
            deviceType = VK_PHYSICAL_DEVICE_TYPE_INTEGRATED_GPU\<rparr>
      else if device = 2
      then \<lparr>deviceName = ''Discrete A'', deviceID = 2,
            deviceType = VK_PHYSICAL_DEVICE_TYPE_DISCRETE_GPU\<rparr>
      else \<lparr>deviceName = ''Discrete B'', deviceID = 3,
            deviceType = VK_PHYSICAL_DEVICE_TYPE_DISCRETE_GPU\<rparr>)"

text \<open>A \<open>Device\<close> as its member initialisers leave it.\<close>

definition new_Device :: Device where
  "new_Device =
     \<lparr>m_physical_device = VK_NULL_HANDLE, m_queue_support = [], m_queue_states = [],
      m_logical_device = VK_NULL_HANDLE, m_graphics_queue_family_index = 0,
      m_presents_queue_family_index = 0, m_transfert_queue_family_index = 0,
      m_graphics_queue = VK_NULL_HANDLE, m_presents_queue = VK_NULL_HANDLE,
      m_transfert_queue = VK_NULL_HANDLE\<rparr>"

text \<open>
  A physical device with one queue family that supports graphics, presentation and
  transfer, after \<open>getQueueFamilies\<close>.
\<close>

definition single_family_device :: Device where
  "single_family_device =
     new_Device\<lparr>m_physical_device := 1, m_queue_support := [7], m_queue_states := [READY]\<rparr>"

text \<open>
  A physical device with three queue families, each supporting one role: transfer,
  graphics, presentation, in this order.
\<close>

definition three_family_device :: Device where
  "three_family_device =
     new_Device\<lparr>m_physical_device := 1, m_queue_support := [TRANSFERT, GRAPHICS, PRESENTS],
                m_queue_states := [READY, READY, READY]\<rparr>"

definition three_family_logical_device :: Device where
  "three_family_logical_device =
     three_family_device\<lparr>m_queue_states := [USED, USED, USED], m_logical_device := 9,
        m_graphics_queue_family_index := 1, m_presents_queue_family_index := 2,
        m_transfert_queue_family_index := 0, m_graphics_queue := 11, m_presents_queue := 12,
        m_transfert_queue := 10\<rparr>"

definition new_SwapChain :: SwapChain where
  "new_SwapChain =
     \<lparr>m_swapchain = VK_NULL_HANDLE,
      m_details = \<lparr>capabilities = \<lparr>minImageCount = 0, maxImageCount = 0,
                      minImageExtent = \<lparr>width = 0, height = 0\<rparr>,
                      maxImageExtent = \<lparr>width = 0, height = 0\<rparr>, currentTransform = 0\<rparr>,
                   formats = [], present_modes = []\<rparr>,
      m_images = [],
      m_format = \<lparr>format = VK_FORMAT_UNDEFINED, colorSpace = VK_COLORSPACE_SRGB_NONLINEAR_KHR\<rparr>,
      m_extent = \<lparr>width = 0, height = 0\<rparr>,
      m_present_mode = VK_PRESENT_MODE_IMMEDIATE_KHR\<rparr>"

text \<open>A surface that reports \<open>minImageCount = 0\<close>, and one that reports 2 to 8 images.\<close>

definition zero_min_surface :: Surface where
  "zero_min_surface =
     \<lparr>surface_capabilities =
        \<lparr>minImageCount = 0, maxImageCount = 3,
         minImageExtent = \<lparr>width = 1, height = 1\<rparr>,
         maxImageExtent = \<lparr>width = 4096, height = 4096\<rparr>, currentTransform = 1\<rparr>,
      surface_formats =
        [\<lparr>format = VK_FORMAT_B8G8R8A8_SRGB, colorSpace = VK_COLORSPACE_SRGB_NONLINEAR_KHR\<rparr>],
      surface_present_modes = [VK_PRESENT_MODE_FIFO_KHR]\<rparr>"

definition usual_surface :: Surface where
  "usual_surface =
     \<lparr>surface_capabilities =
        \<lparr>minImageCount = 2, maxImageCount = 8,
         minImageExtent = \<lparr>width = 1, height = 1\<rparr>,
         maxImageExtent = \<lparr>width = 4096, height = 4096\<rparr>, currentTransform = 1\<rparr>,
      surface_formats =
        [\<lparr>format = VK_FORMAT_B8G8R8A8_SRGB, colorSpace = VK_COLORSPACE_SRGB_NONLINEAR_KHR\<rparr>],
      surface_present_modes = [VK_PRESENT_MODE_FIFO_KHR]\<rparr>"

text \<open>A pipeline with every object created.\<close>

definition full_Pipeline :: Pipeline where
  "full_Pipeline =
     \<lparr>m_shader_modules = [21, 22], m_layout = 23, m_render_pass = 24, m_pipeline = 25,
      m_vertex_buffer = 26, m_vertex_buffer_allocation = 27,
      m_index_buffer = 28, m_index_buffer_allocation = 29,
      m_sync_image_ready = Some 30, m_sync_present_done = Some 31, m_sync_cpu_gpu = Some 32\<rparr>"




text \<open>What the overlay records for one window: its pipeline and one quad of 6 indices.\<close>

definition overlay_quad :: "cmd list" where
  "overlay_quad = [CmdBindPipeline 50, CmdDrawIndexed 6 1 0 0 0]"

definition frame_inputs :: RecordInputs where
  "frame_inputs =
     \<lparr>in_frame_index = 2, in_framebuffers = [41, 42, 43], in_render_pass = 24, in_pipeline = 25,
      in_extent = \<lparr>width = 1280, height = 720\<rparr>, in_vertex_buffer = VK_NULL_HANDLE,
      in_index_buffer = VK_NULL_HANDLE\<rparr>"

text \<open>Projections of the result of \<open>drawFrame\<close> and of a run of frames.\<close>

definition frame_index_after :: "(error + Application \<times> nat list) option \<Rightarrow> 32 word option" where
  "frame_index_after r =
     (case r of Some (Inr (app, clock)) \<Rightarrow> Some (m_frame_index (m_render app)) | _ \<Rightarrow> None)"

definition remaining_clock :: "(error + Application \<times> nat list) option \<Rightarrow> nat list option" where
  "remaining_clock r = (case r of Some (Inr (app, clock)) \<Rightarrow> Some clock | _ \<Rightarrow> None)"

definition many_frames :: nat where
  "many_frames = 2 ^ 32"

text \<open>
  The application with three framebuffers, built with \<open>UNSET_FPS_LIMIT\<close> and built with
  the default cap of 60 frames per second.
\<close>

definition uncapped_Application :: Application where
  "uncapped_Application = initial_Application None [41, 42, 43] (replicate 10 0)"

definition capped_Application :: Application where
  "capped_Application = initial_Application (Some FPS_LIMIT_60) [41, 42, 43] (replicate 10 0)"

section \<open>Device selection\<close>

lemma listDevices_loop_find:
  "listDevices_loop apple props devices = List.find (isDeviceSuitable apple props) devices"
  by (induction devices) simp_all

lemma listDevices_Ok_iff:
  "listDevices apple props devices dev = Ok dev' \<longleftrightarrow>
     (\<exists>d. List.find (isDeviceSuitable apple props) devices = Some d \<and>
          dev' = dev\<lparr>m_physical_device := d\<rparr>)"
proof (cases devices)
  case Nil
  then show ?thesis by (simp add: listDevices_def)
next
  case (Cons a as)
  then show ?thesis
    by (cases "List.find (isDeviceSuitable apple props) devices")
       (auto simp: listDevices_def listDevices_loop_find)
qed

lemma find_first_index:
  "List.find P xs = Some d \<longleftrightarrow>
     (\<exists>i<length xs. P (xs ! i) \<and> (\<forall>j<i. \<not> P (xs ! j)) \<and> d = xs ! i)"
  by (auto simp: find_Some_iff)

lemma listDevices_first:
  "listDevices apple props devices dev = Ok dev' \<longleftrightarrow>
     (\<exists>i<length devices. isDeviceSuitable apple props (devices ! i) \<and>
        (\<forall>j<i. \<not> isDeviceSuitable apple props (devices ! j)) \<and>
        dev' = dev\<lparr>m_physical_device := devices ! i\<rparr>)"
  unfolding listDevices_Ok_iff find_first_index by blast

lemma listDevices_none_suitable:
  assumes "devices \<noteq> []" and "\<forall>d\<in>set devices. \<not> isDeviceSuitable apple props d"
  shows "listDevices apple props devices dev = Inl (Error ''no suitable physical device'')"
proof -
  from assms have "List.find (isDeviceSuitable apple props) devices = None"
    by (simp add: find_None_iff)
  with assms show ?thesis by (simp add: listDevices_def listDevices_loop_find)
qed

lemma isDeviceSuitable_iff:
  "isDeviceSuitable apple props d \<longleftrightarrow>
     d \<noteq> VK_NULL_HANDLE \<and>
     (deviceType (props d) = VK_PHYSICAL_DEVICE_TYPE_DISCRETE_GPU \<or>
      apple \<and> (deviceName (props d) = ''Apple M1'' \<or> deviceName (props d) = ''Apple M2''))"
  by (auto simp: isDeviceSuitable_def Let_def APPLE_M1_NAME_def APPLE_M2_NAME_def)

text \<open>
  C6. \<open>listDevices\<close> succeeds exactly with the first device, in enumeration order, that
  is suitable (no device before it is); it fails with one message when the enumeration is
  empty and with another when no device is suitable; a device is suitable when it is not
  null and is a discrete GPU or, on the Apple platform, is named Apple M1 or Apple M2.
\<close>

theorem listDevices_first_suitable:
  "(listDevices apple props devices dev = Ok dev' \<longleftrightarrow>
      (\<exists>i<length devices. isDeviceSuitable apple props (devices ! i) \<and>
         (\<forall>j<i. \<not> isDeviceSuitable apple props (devices ! j)) \<and>
         dev' = dev\<lparr>m_physical_device := devices ! i\<rparr>))
   \<and> (devices = [] \<longrightarrow>
        listDevices apple props devices dev = Inl (Error ''no supported physical device''))
   \<and> (devices \<noteq> [] \<and> (\<forall>d\<in>set devices. \<not> isDeviceSuitable apple props d) \<longrightarrow>
        listDevices apple props devices dev = Inl (Error ''no suitable physical device''))
   \<and> Error ''no supported physical device'' \<noteq> Error ''no suitable physical device''
   \<and> (isDeviceSuitable apple props d \<longleftrightarrow>
        d \<noteq> VK_NULL_HANDLE \<and>
        (deviceType (props d) = VK_PHYSICAL_DEVICE_TYPE_DISCRETE_GPU \<or>
         apple \<and> (deviceName (props d) = ''Apple M1'' \<or> deviceName (props d) = ''Apple M2'')))"
proof (intro conjI)
  show "listDevices apple props devices dev = Ok dev' \<longleftrightarrow>
      (\<exists>i<length devices. isDeviceSuitable apple props (devices ! i) \<and>
         (\<forall>j<i. \<not> isDeviceSuitable apple props (devices ! j)) \<and>
         dev' = dev\<lparr>m_physical_device := devices ! i\<rparr>)"
    by (rule listDevices_first)
  show "devices = [] \<longrightarrow>
        listDevices apple props devices dev = Inl (Error ''no supported physical device'')"
    by (simp add: listDevices_def)
  show "devices \<noteq> [] \<and> (\<forall>d\<in>set devices. \<not> isDeviceSuitable apple props d) \<longrightarrow>
        listDevices apple props devices dev = Inl (Error ''no suitable physical device'')"
    using listDevices_none_suitable by blast
  show "Error ''no supported physical device'' \<noteq> Error ''no suitable physical device''"
    by simp
  show "isDeviceSuitable apple props d \<longleftrightarrow>
        d \<noteq> VK_NULL_HANDLE \<and>
        (deviceType (props d) = VK_PHYSICAL_DEVICE_TYPE_DISCRETE_GPU \<or>
         apple \<and> (deviceName (props d) = ''Apple M1'' \<or> deviceName (props d) = ''Apple M2''))"
    by (rule isDeviceSuitable_iff)
qed

theorem listDevices_first_suitable_witness:
  "listDevices False two_gpus_props [1, 2, 3] new_Device = Ok (new_Device\<lparr>m_physical_device := 2\<rparr>)
   \<and> listDevices False two_gpus_props [] new_Device = Inl (Error ''no supported physical device'')
   \<and> listDevices False two_gpus_props [1] new_Device = Inl (Error ''no suitable physical device'')"
proof -
  have s1: "\<not> isDeviceSuitable False two_gpus_props 1"
    and s2: "isDeviceSuitable False two_gpus_props 2"
    by (simp_all add: isDeviceSuitable_def two_gpus_props_def VK_NULL_HANDLE_def)
  have "\<exists>i<length [1, 2, 3 :: nat]. isDeviceSuitable False two_gpus_props ([1, 2, 3] ! i) \<and>
         (\<forall>j<i. \<not> isDeviceSuitable False two_gpus_props ([1, 2, 3] ! j)) \<and>
         new_Device\<lparr>m_physical_device := 2\<rparr> = new_Device\<lparr>m_physical_device := [1, 2, 3] ! i\<rparr>"
    using s1 s2 by (intro exI[of _ 1]) simp
  with listDevices_first_suitable
         [of False two_gpus_props "[1, 2, 3]" new_Device "new_Device\<lparr>m_physical_device := 2\<rparr>"]
  have a: "listDevices False two_gpus_props [1, 2, 3] new_Device
             = Ok (new_Device\<lparr>m_physical_device := 2\<rparr>)"
    by blast
  from listDevices_first_suitable [of False two_gpus_props "[]" new_Device]
  have b: "listDevices False two_gpus_props [] new_Device
             = Inl (Error ''no supported physical device'')"
    by blast
  from listDevices_first_suitable [of False two_gpus_props "[1]" new_Device] s1
  have c: "listDevices False two_gpus_props [1] new_Device
             = Inl (Error ''no suitable physical device'')"
    by simp
  from a b c show ?thesis by blast
qed

section \<open>Queue families\<close>

lemma first_index_loop_range:
  "ss \<noteq> [] \<Longrightarrow> i \<le> first_index_loop took ss flag i f \<and> first_index_loop took ss flag i f < i + length ss"
proof (induction ss arbitrary: i f)
  case Nil
  then show ?case by simp
next
  case (Cons s ss)
  show ?case
  proof (cases ss)
    case Nil
    then show ?thesis by simp
  next
    case (Cons s' ss')
    then have "ss \<noteq> []" by simp
    from Cons.IH [OF this, of "i + 1" i]
    have "i + 1 \<le> first_index_loop took ss flag (i + 1) i \<and>
          first_index_loop took ss flag (i + 1) i < i + 1 + length ss"
      by simp
    then show ?thesis by auto
  qed
qed

lemma first_index_loop_below_size:
  "support \<noteq> [] \<Longrightarrow> first_index_loop took support flag 0 0 < length support"
  using first_index_loop_range [of support 0 took flag 0] by simp

lemma assign_queues_no_error:
  "m_queue_support dev \<noteq> [] \<Longrightarrow> set flags \<subseteq> {GRAPHICS, PRESENTS, TRANSFERT} \<Longrightarrow>
     \<exists>queues' dev'. assign_queues flags took queue_index queues dev = Ok (queues', dev')"
proof (induction flags arbitrary: took queue_index queues dev)
  case Nil
  then show ?case by simp
next
  case (Cons flag flags)
  let ?f = "first_index_loop took (m_queue_support dev) flag 0 0"
  from Cons.prems have lt: "?f < length (m_queue_support dev)"
    by (simp add: first_index_loop_below_size)
  from Cons.prems have fl: "flag = GRAPHICS \<or> flag = PRESENTS \<or> flag = TRANSFERT"
    and rest: "set flags \<subseteq> {GRAPHICS, PRESENTS, TRANSFERT}"
    by auto
  have ih: "\<exists>queues' dev'. assign_queues flags took' qi qs d = Ok (queues', dev')"
    if "m_queue_support d = m_queue_support dev" for took' qi qs d
    using Cons.IH [of d took' qi qs] that Cons.prems(1) rest by simp
  from fl show ?case
  proof (elim disjE)
    assume "flag = GRAPHICS"
    with lt have "assign_queues (flag # flags) took queue_index queues dev =
        assign_queues flags (took[queue_index := int ?f]) (queue_index + 1)
          (queues[queue_index := \<lparr>queueFamilyIndex = of_nat ?f, queueCount = 1\<rparr>])
          (dev\<lparr>m_queue_states := (m_queue_states dev)[?f := USED],
               m_graphics_queue_family_index := of_nat ?f\<rparr>)"
      by (simp add: Let_def)
    with ih show ?thesis by simp
  next
    assume "flag = PRESENTS"
    with lt have "assign_queues (flag # flags) took queue_index queues dev =
        assign_queues flags (took[queue_index := int ?f]) (queue_index + 1)
          (queues[queue_index := \<lparr>queueFamilyIndex = of_nat ?f, queueCount = 1\<rparr>])
          (dev\<lparr>m_queue_states := (m_queue_states dev)[?f := USED],
               m_presents_queue_family_index := of_nat ?f\<rparr>)"
      by (simp add: Let_def GRAPHICS_def PRESENTS_def)
    with ih show ?thesis by simp
  next
    assume "flag = TRANSFERT"
    with lt have "assign_queues (flag # flags) took queue_index queues dev =
        assign_queues flags (took[queue_index := int ?f]) (queue_index + 1)
          (queues[queue_index := \<lparr>queueFamilyIndex = of_nat ?f, queueCount = 1\<rparr>])
          (dev\<lparr>m_queue_states := (m_queue_states dev)[?f := USED],
               m_transfert_queue_family_index := of_nat ?f\<rparr>)"
      by (simp add: Let_def GRAPHICS_def PRESENTS_def TRANSFERT_def)
    with ih show ?thesis by simp
  qed
qed

lemma createLogicalDevice_no_error:
  assumes "m_physical_device dev \<noteq> VK_NULL_HANDLE"
      and "m_queue_support dev \<noteq> []"
      and "\<forall>queues. fst (vkCreateDevice queues) = VK_SUCCESS"
  shows "\<exists>dev'. createLogicalDevice asserts vkCreateDevice vkGetDeviceQueue dev = Ok dev'"
proof -
  have "set [GRAPHICS, PRESENTS, TRANSFERT] \<subseteq> {GRAPHICS, PRESENTS, TRANSFERT}"
    by simp
  from assign_queues_no_error [OF assms(2) this, of "[-1, -1, -1]" 0
         "replicate 3 \<lparr>queueFamilyIndex = 0, queueCount = 0\<rparr>"]
  obtain queues' dev' where
    a: "assign_queues [GRAPHICS, PRESENTS, TRANSFERT] [-1, -1, -1] 0
          (replicate 3 \<lparr>queueFamilyIndex = 0, queueCount = 0\<rparr>) dev = Ok (queues', dev')"
    by blast
  obtain r d where v: "vkCreateDevice queues' = (r, d)"
    by (cases "vkCreateDevice queues'")
  with assms(3) have "r = VK_SUCCESS"
    by (metis fst_conv)
  with a v assms(1) show ?thesis
    by (simp add: createLogicalDevice_def Let_def)
qed

text \<open>
  C1. On a physical device whose single queue family supports graphics, presentation and
  transfer (so there is a family for each role), \<open>createLogicalDevice\<close> returns no error:
  the scan for PRESENTS and for TRANSFERT skips family 0, ends with \<open>first_index\<close> still
  0, and the test \<open>first_index >= m_queue_support.size()\<close> does not fire. The three queue
  create-infos and the three roles all get family 0.
\<close>

theorem createLogicalDevice_single_family_repeats_index:
  "(7 :: int) AND GRAPHICS \<noteq> 0 \<and> (7 :: int) AND PRESENTS \<noteq> 0 \<and> (7 :: int) AND TRANSFERT \<noteq> 0
   \<and> first_index_loop [0, -1, -1] (m_queue_support single_family_device) PRESENTS 0 0 = 0
   \<and> first_index_loop [0, 0, -1] (m_queue_support single_family_device) TRANSFERT 0 0 = 0
   \<and> assign_queues [GRAPHICS, PRESENTS, TRANSFERT] [-1, -1, -1] 0
        (replicate 3 \<lparr>queueFamilyIndex = 0, queueCount = 0\<rparr>) single_family_device
      = Ok ([\<lparr>queueFamilyIndex = 0, queueCount = 1\<rparr>, \<lparr>queueFamilyIndex = 0, queueCount = 1\<rparr>,
             \<lparr>queueFamilyIndex = 0, queueCount = 1\<rparr>],
            single_family_device\<lparr>m_queue_states := [USED]\<rparr>)
   \<and> createLogicalDevice False (\<lambda>queues. (VK_SUCCESS, 9)) (\<lambda>device family. 10 + unat family)
        single_family_device
      = Ok (single_family_device\<lparr>m_queue_states := [USED], m_logical_device := 9,
              m_graphics_queue_family_index := 0, m_presents_queue_family_index := 0,
              m_transfert_queue_family_index := 0, m_graphics_queue := 10,
              m_presents_queue := 10, m_transfert_queue := 10\<rparr>)"
  by (simp add: createLogicalDevice_def single_family_device_def new_Device_def GRAPHICS_def
        PRESENTS_def TRANSFERT_def Let_def numeral_3_eq_3 VK_NULL_HANDLE_def)

section \<open>Swapchain\<close>

lemma MAX_BUFFERS_ucast: "(ucast MAX_BUFFERS :: 32 word) = 3"
  by (simp add: MAX_BUFFERS_def)

lemma checkDetails_iff:
  "checkDetails sc = Ok () \<longleftrightarrow>
     1 \<le> unat (minImageCount (capabilities (m_details sc))) \<and>
     unat (minImageCount (capabilities (m_details sc))) \<le> unat MAX_BUFFERS \<and>
     unat MAX_BUFFERS \<le> unat (maxImageCount (capabilities (m_details sc))) \<and>
     formats (m_details sc) \<noteq> [] \<and> present_modes (m_details sc) \<noteq> []"
  by (auto simp: checkDetails_def MAX_BUFFERS_ucast MAX_BUFFERS_def word_le_nat_alt
        word_less_nat_alt)

lemma checkDetails_cases:
  "checkDetails sc = Ok () \<or>
   checkDetails sc = Inl (Error ''The supported images count is incorrect'')"
  by (simp add: checkDetails_def)

lemma queryDetails_Some:
  "queryDetails asserts (Some s) sc =
     Ok (sc\<lparr>m_details := \<lparr>capabilities = surface_capabilities s, formats = surface_formats s,
                           present_modes = surface_present_modes s\<rparr>\<rparr>)"
  by (simp add: queryDetails_def)

text \<open>
  C3, as amended. \<open>queryDetails\<close> on a surface followed by \<open>checkDetails\<close> succeeds if and
  only if the captured \<open>minImageCount\<close> is at least 1, \<open>MAX_BUFFERS\<close> (3) lies between the
  captured \<open>minImageCount\<close> and \<open>maxImageCount\<close>, and the captured format and present-mode
  lists are both non-empty; otherwise \<open>checkDetails\<close> returns its error.
\<close>

theorem checkDetails_after_queryDetails:
  "\<exists>sc'. queryDetails asserts (Some s) sc = Ok sc' \<and>
     (checkDetails sc' = Ok () \<longleftrightarrow>
        1 \<le> unat (minImageCount (surface_capabilities s)) \<and>
        unat (minImageCount (surface_capabilities s)) \<le> unat MAX_BUFFERS \<and>
        unat MAX_BUFFERS \<le> unat (maxImageCount (surface_capabilities s)) \<and>
        surface_formats s \<noteq> [] \<and> surface_present_modes s \<noteq> []) \<and>
     (checkDetails sc' \<noteq> Ok () \<longrightarrow>
        checkDetails sc' = Inl (Error ''The supported images count is incorrect'')) \<and>
     unat MAX_BUFFERS = 3"
proof -
  let ?sc = "sc\<lparr>m_details := \<lparr>capabilities = surface_capabilities s,
                 formats = surface_formats s, present_modes = surface_present_modes s\<rparr>\<rparr>"
  have "checkDetails ?sc = Ok () \<longleftrightarrow>
        1 \<le> unat (minImageCount (surface_capabilities s)) \<and>
        unat (minImageCount (surface_capabilities s)) \<le> unat MAX_BUFFERS \<and>
        unat MAX_BUFFERS \<le> unat (maxImageCount (surface_capabilities s)) \<and>
        surface_formats s \<noteq> [] \<and> surface_present_modes s \<noteq> []"
    by (simp add: checkDetails_iff)
  moreover have "checkDetails ?sc \<noteq> Ok () \<longrightarrow>
      checkDetails ?sc = Inl (Error ''The supported images count is incorrect'')"
    using checkDetails_cases [of ?sc] by blast
  moreover have "unat MAX_BUFFERS = 3"
    by (simp add: MAX_BUFFERS_def)
  ultimately show ?thesis
    using queryDetails_Some [of asserts s sc] by blast
qed

theorem checkDetails_after_queryDetails_witness:
  "query_then_check False (Some usual_surface) new_SwapChain = Ok ()"
proof -
  from checkDetails_after_queryDetails [of False usual_surface new_SwapChain]
  obtain sc' where q: "queryDetails False (Some usual_surface) new_SwapChain = Ok sc'"
    and c: "checkDetails sc' = Ok () \<longleftrightarrow>
        1 \<le> unat (minImageCount (surface_capabilities usual_surface)) \<and>
        unat (minImageCount (surface_capabilities usual_surface)) \<le> unat MAX_BUFFERS \<and>
        unat MAX_BUFFERS \<le> unat (maxImageCount (surface_capabilities usual_surface)) \<and>
        surface_formats usual_surface \<noteq> [] \<and> surface_present_modes usual_surface \<noteq> []"
    by blast
  have "checkDetails sc' = Ok ()"
    unfolding c by (simp add: usual_surface_def MAX_BUFFERS_def)
  with q show ?thesis by (simp add: query_then_check_def)
qed

text \<open>
  The claim C3 as stated fails on a surface that reports \<open>minImageCount = 0\<close> and
  \<open>maxImageCount = 3\<close> with one format and one present mode: 3 lies within [0, 3] and both
  lists are non-empty, yet \<open>checkDetails\<close> returns its error.
\<close>

theorem checkDetails_zero_min_counterexample:
  "unat (minImageCount (surface_capabilities zero_min_surface)) \<le> unat MAX_BUFFERS \<and>
   unat MAX_BUFFERS \<le> unat (maxImageCount (surface_capabilities zero_min_surface)) \<and>
   surface_formats zero_min_surface \<noteq> [] \<and> surface_present_modes zero_min_surface \<noteq> [] \<and>
   query_then_check False (Some zero_min_surface) new_SwapChain
     = Inl (Error ''The supported images count is incorrect'')"
  by (simp add: query_then_check_def queryDetails_def checkDetails_def zero_min_surface_def
        MAX_BUFFERS_def new_SwapChain_def)

lemma is_exclusive_iff:
  "is_exclusive i0 i1 i2 \<longleftrightarrow> (i0 = i1 \<and> i2 = 1) \<or> (i0 \<noteq> i1 \<and> i2 = 0)"
  by (auto simp: is_exclusive_def)

text \<open>
  C4. A physical device whose families 0, 1, 2 support transfer, graphics and presentation
  gets, from \<open>createLogicalDevice\<close>, the pairwise distinct indices graphics 1, presents 2,
  transfer 0. For them \<open>indices[0] == indices[1] == indices[2]\<close> is true (\<open>1 == 2\<close> is
  \<open>false\<close>, which equals 0): with assertions compiled in, \<open>assert(!is_exclusive)\<close> fails;
  without them the create-info asks for exclusive sharing with no queue family indices.
\<close>

theorem create_info_exclusive_for_distinct_families:
  "createLogicalDevice False (\<lambda>queues. (VK_SUCCESS, 9)) (\<lambda>device family. 10 + unat family)
      three_family_device = Ok three_family_logical_device
   \<and> m_graphics_queue_family_index three_family_logical_device = 1
   \<and> m_presents_queue_family_index three_family_logical_device = 2
   \<and> m_transfert_queue_family_index three_family_logical_device = 0
   \<and> is_exclusive 1 2 0
   \<and> build_create_info True three_family_logical_device new_SwapChain = Inl AssertionFailed
   \<and> build_create_info False three_family_logical_device new_SwapChain =
       Ok \<lparr>info_minImageCount = 3, imageFormat = VK_FORMAT_UNDEFINED,
           imageColorSpace = VK_COLORSPACE_SRGB_NONLINEAR_KHR,
           imageExtent = \<lparr>width = 0, height = 0\<rparr>, imageArrayLayers = 1,
           imageSharingMode = VK_SHARING_MODE_EXCLUSIVE, queueFamilyIndexCount = 0,
           pQueueFamilyIndices = None, preTransform = 0,
           presentMode = VK_PRESENT_MODE_IMMEDIATE_KHR, oldSwapchain = VK_NULL_HANDLE\<rparr>"
  by (simp add: createLogicalDevice_def three_family_device_def three_family_logical_device_def
        new_Device_def GRAPHICS_def PRESENTS_def TRANSFERT_def Let_def numeral_3_eq_3
        VK_NULL_HANDLE_def is_exclusive_def build_create_info_def new_SwapChain_def
        MAX_BUFFERS_def)

lemma choosePresentMode_eq:
  "choosePresentMode unset modes =
     (if PREFERED_PRESENTATION_MODE unset \<in> set modes
      then Ok (PREFERED_PRESENTATION_MODE unset)
      else Inl (Error ''Our prefered presentation mode is not found''))"
  by (induction modes) auto

lemma chooseFormat_loop_None:
  "chooseFormat_loop fs = None \<longleftrightarrow>
     (\<forall>f\<in>set fs. \<not> (format f = PREFERED_SURFACE_FORMAT \<and>
                     colorSpace f = PREFERED_COLOR_SPACE_FORMAT))"
  by (induction fs) auto

lemma chooseFormat_fallback:
  "\<forall>f\<in>set (f0 # fs). \<not> (format f = PREFERED_SURFACE_FORMAT \<and>
                          colorSpace f = PREFERED_COLOR_SPACE_FORMAT)
   \<Longrightarrow> chooseFormat (f0 # fs) = Ok f0"
  unfolding chooseFormat_def using chooseFormat_loop_None [of "f0 # fs"] by simp

text \<open>
  C5. For every list of present modes, \<open>choosePresentMode\<close> returns the preferred mode when
  the list contains it and an error when it does not, and never another mode; the preferred
  mode is FIFO when the FPS cap is configured (\<open>UNSET_FPS_LIMIT\<close> not defined) and immediate
  otherwise. \<open>chooseFormat\<close>, in contrast, returns the first entry of a non-empty list that
  has no preferred entry.
\<close>

theorem choosePresentMode_no_fallback:
  "choosePresentMode unset modes =
     (if PREFERED_PRESENTATION_MODE unset \<in> set modes
      then Ok (PREFERED_PRESENTATION_MODE unset)
      else Inl (Error ''Our prefered presentation mode is not found''))
   \<and> PREFERED_PRESENTATION_MODE unset =
       (if APPLICATION_FPS_LIMIT unset \<noteq> None
        then VK_PRESENT_MODE_FIFO_KHR else VK_PRESENT_MODE_IMMEDIATE_KHR)
   \<and> (APPLICATION_FPS_LIMIT unset \<noteq> None \<longleftrightarrow> \<not> unset)
   \<and> ((\<forall>f\<in>set (f0 # fs). \<not> (format f = PREFERED_SURFACE_FORMAT \<and>
                               colorSpace f = PREFERED_COLOR_SPACE_FORMAT))
        \<longrightarrow> chooseFormat (f0 # fs) = Ok f0)"
  using choosePresentMode_eq [of unset modes] chooseFormat_fallback [of f0 fs]
  by (simp add: PREFERED_PRESENTATION_MODE_def APPLICATION_FPS_LIMIT_def)

theorem choosePresentMode_no_fallback_witness:
  "choosePresentMode False [VK_PRESENT_MODE_IMMEDIATE_KHR]
     = Inl (Error ''Our prefered presentation mode is not found'')
   \<and> choosePresentMode False [VK_PRESENT_MODE_IMMEDIATE_KHR, VK_PRESENT_MODE_FIFO_KHR]
     = Ok VK_PRESENT_MODE_FIFO_KHR
   \<and> chooseFormat
       [\<lparr>format = VK_FORMAT_R8G8B8A8_UNORM, colorSpace = VK_COLOR_SPACE_EXTENDED_SRGB_LINEAR_EXT\<rparr>,
        \<lparr>format = VK_FORMAT_B8G8R8A8_UNORM, colorSpace = VK_COLORSPACE_SRGB_NONLINEAR_KHR\<rparr>]
     = Ok \<lparr>format = VK_FORMAT_R8G8B8A8_UNORM,
           colorSpace = VK_COLOR_SPACE_EXTENDED_SRGB_LINEAR_EXT\<rparr>"
  using choosePresentMode_no_fallback
          [of False "[VK_PRESENT_MODE_IMMEDIATE_KHR]"
              "\<lparr>format = VK_FORMAT_R8G8B8A8_UNORM,
                colorSpace = VK_COLOR_SPACE_EXTENDED_SRGB_LINEAR_EXT\<rparr>"
              "[\<lparr>format = VK_FORMAT_B8G8R8A8_UNORM,
                 colorSpace = VK_COLORSPACE_SRGB_NONLINEAR_KHR\<rparr>]"]
        choosePresentMode_no_fallback
          [of False "[VK_PRESENT_MODE_IMMEDIATE_KHR, VK_PRESENT_MODE_FIFO_KHR]"]
  by (simp add: PREFERED_PRESENTATION_MODE_def APPLICATION_FPS_LIMIT_def
        PREFERED_SURFACE_FORMAT_def PREFERED_COLOR_SPACE_FORMAT_def)

section \<open>Buffers, teardown and recording\<close>

lemma createVertexBuffer_null:
  "createVertexBuffer p calls = (r, p', calls') \<Longrightarrow>
     r = Ok () \<and> m_vertex_buffer p' = VK_NULL_HANDLE \<and>
     (calls' = calls \<or>
      calls' = calls @ [VmaDestroyBuffer (m_vertex_buffer p) (m_vertex_buffer_allocation p)])"
  by (auto simp: createVertexBuffer_def split: if_splits)

lemma createIndexBuffer_null:
  "createIndexBuffer p calls = (r, p', calls') \<Longrightarrow>
     r = Ok () \<and> m_index_buffer p' = VK_NULL_HANDLE \<and>
     (calls' = calls \<or>
      calls' = calls @ [VmaDestroyBuffer (m_index_buffer p) (m_index_buffer_allocation p)])"
  by (auto simp: createIndexBuffer_def split: if_splits)

text \<open>
  C8. On a pipeline that holds a vertex buffer and an index buffer, \<open>createVertexBuffer\<close>
  and \<open>createIndexBuffer\<close> destroy the buffer, allocate and copy nothing (the only native
  call is the destruction) and return \<open>Ok\<close> with the buffer handle null.
\<close>

theorem createVertexBuffer_leaves_null_buffer:
  "createVertexBuffer full_Pipeline [] =
     (Ok (),
      full_Pipeline\<lparr>m_vertex_buffer := VK_NULL_HANDLE, m_vertex_buffer_allocation := VK_NULL_HANDLE\<rparr>,
      [VmaDestroyBuffer 26 27])
   \<and> createIndexBuffer full_Pipeline [] =
     (Ok (),
      full_Pipeline\<lparr>m_index_buffer := VK_NULL_HANDLE, m_index_buffer_allocation := VK_NULL_HANDLE\<rparr>,
      [VmaDestroyBuffer 28 29])"
  by (simp add: createVertexBuffer_def createIndexBuffer_def full_Pipeline_def VK_NULL_HANDLE_def)





















lemma Pipeline_dtor_calls_distinct:
  assumes "distinct (m_shader_modules p)"
      and "VK_NULL_HANDLE \<noteq> m_vertex_buffer p \<longrightarrow> m_vertex_buffer p \<noteq> m_index_buffer p"
      and "\<forall>s. m_sync_image_ready p = Some s \<longrightarrow> m_sync_present_done p \<noteq> Some s"
  shows "distinct (Pipeline_dtor_calls p)"
  using assms
  by (auto simp: Pipeline_dtor_calls_def distinct_map inj_on_def split: option.splits)




text \<open>
  C10, as amended. \<open>record\<close> succeeds exactly when the command buffer begins, the frame
  index is below the number of framebuffers and the command buffer ends. The indexed draws
  of the command buffer it has then written are its own draw of 0 indices (one instance,
  offsets 0), followed by the indexed draws among the commands of the overlay; in a build
  without \<open>IMGUI\<close> the draw of 0 indices is the only one.
\<close>

theorem record_indexed_draws:
  "(fst (Command_record overlay b e inp) = Ok () \<longleftrightarrow>
      b = VK_SUCCESS \<and> unat (in_frame_index inp) < length (in_framebuffers inp) \<and>
      e = VK_SUCCESS)
   \<and> (fst (Command_record overlay b e inp) = Ok () \<longrightarrow>
        filter is_draw_indexed (snd (Command_record overlay b e inp))
          = CmdDrawIndexed 0 1 0 0 0
            # filter is_draw_indexed (case overlay of None \<Rightarrow> [] | Some cmds \<Rightarrow> cmds))
   \<and> (fst (Command_record None b e inp) = Ok () \<longrightarrow>
        filter is_draw_indexed (snd (Command_record None b e inp))
          = [CmdDrawIndexed 0 1 0 0 0])"
  by (simp add: Command_record_def Let_def)

theorem record_indexed_draws_witness:
  "fst (Command_record None VK_SUCCESS VK_SUCCESS frame_inputs) = Ok ()
   \<and> filter is_draw_indexed (snd (Command_record None VK_SUCCESS VK_SUCCESS frame_inputs))
       = [CmdDrawIndexed 0 1 0 0 0]"
proof -
  have "unat (in_frame_index frame_inputs) < length (in_framebuffers frame_inputs)"
    by (simp add: frame_inputs_def)
  with record_indexed_draws [of None VK_SUCCESS VK_SUCCESS frame_inputs]
  show ?thesis by blast
qed

text \<open>
  The claim C10 as stated fails in a build with \<open>IMGUI\<close> when the overlay draws one
  quad: the command buffer of a successful \<open>record\<close> holds two indexed draws, the second
  of 6 indices.
\<close>

theorem record_with_overlay_counterexample:
  "fst (Command_record (Some overlay_quad) VK_SUCCESS VK_SUCCESS frame_inputs) = Ok ()
   \<and> filter is_draw_indexed
        (snd (Command_record (Some overlay_quad) VK_SUCCESS VK_SUCCESS frame_inputs))
       = [CmdDrawIndexed 0 1 0 0 0, CmdDrawIndexed 6 1 0 0 0]"
  by (simp add: Command_record_def Let_def overlay_quad_def frame_inputs_def)

section \<open>Frame loop\<close>

lemma render_timed_fields:
  "m_current_frame (render_timed app a t1 t2) = m_current_frame app"
  "m_FPS_limit (render_timed app a t1 t2) = m_FPS_limit app"
  "m_framebuffers (m_render (render_timed app a t1 t2)) = m_framebuffers (m_render app)"
  "m_frame_index (m_render (render_timed app a t1 t2)) = m_frame_index (acquireImage a (m_render app))"
  by (simp_all add: render_timed_def acquireImage_def Let_def split: option.splits)

lemma end_frame_Ok:
  "end_frame app = Ok app' \<Longrightarrow>
     m_framebuffers (m_render app) \<noteq> [] \<and>
     m_current_frame app' = m_current_frame app + 1 \<and>
     m_FPS_limit app' = m_FPS_limit app \<and>
     m_framebuffers (m_render app') = m_framebuffers (m_render app) \<and>
     m_frame_index (m_render app') =
       of_nat (unat (ucast (m_current_frame app) :: 32 word) mod length (m_framebuffers (m_render app)))"
  by (auto simp: end_frame_def updateFrameIndex_def split: if_splits)

lemma end_frame_total:
  "m_framebuffers (m_render app) \<noteq> [] \<Longrightarrow> \<exists>app'. end_frame app = Ok app'"
  by (simp add: end_frame_def updateFrameIndex_def)

lemma drawFrame_Ok:
  assumes "drawFrame app a clock = Some (Ok (app', clock'))"
  shows "m_framebuffers (m_render app) \<noteq> [] \<and>
     m_current_frame app' = m_current_frame app + 1 \<and>
     m_FPS_limit app' = m_FPS_limit app \<and>
     m_framebuffers (m_render app') = m_framebuffers (m_render app) \<and>
     m_frame_index (m_render app') =
       of_nat (unat (ucast (m_current_frame app) :: 32 word) mod length (m_framebuffers (m_render app)))"
proof -
  from assms obtain t1 t2 mid where e: "end_frame (render_timed app a t1 t2) = Ok mid" and "mid = app'"
    by (auto simp: drawFrame_def Let_def split: option.splits list.splits if_splits sum.splits)
  from end_frame_Ok[OF e] show ?thesis using \<open>mid = app'\<close>
    by (simp add: render_timed_fields)
qed


lemma run_frames_Ok:
  "run_frames app acqs clock = Some (Ok (app', clock')) \<Longrightarrow>
     m_current_frame app' = m_current_frame app + of_nat (length acqs) \<and>
     m_FPS_limit app' = m_FPS_limit app \<and>
     m_framebuffers (m_render app') = m_framebuffers (m_render app) \<and>
     (acqs \<noteq> [] \<longrightarrow>
        m_framebuffers (m_render app) \<noteq> [] \<and>
        m_frame_index (m_render app') =
          of_nat (unat (ucast (m_current_frame app + of_nat (length acqs) - 1) :: 32 word)
                  mod length (m_framebuffers (m_render app))))"
proof (induction acqs arbitrary: app clock)
  case Nil
  then show ?case by simp
next
  case (Cons a rest)
  from Cons.prems obtain mid c1 where
    d: "drawFrame app a clock = Some (Ok (mid, c1))" and
    r: "run_frames mid rest c1 = Some (Ok (app', clock'))"
    by (auto split: option.splits sum.splits)
  note D = drawFrame_Ok [OF d]
  note R = Cons.IH [OF r]
  show ?case
  proof (cases rest)
    case Nil
    with r have "app' = mid" by simp
    with D Nil show ?thesis by simp
  next
    case (Cons b rest')
    with R D show ?thesis by (simp add: algebra_simps)
  qed
qed

lemma run_frames_append:
  "run_frames app (xs @ ys) clock = Some (Ok r) \<Longrightarrow>
     \<exists>s c. run_frames app xs clock = Some (Ok (s, c)) \<and> run_frames s ys c = Some (Ok r)"
proof (induction xs arbitrary: app clock)
  case Nil
  then show ?case by simp
next
  case (Cons a xs)
  from Cons.prems obtain mid c1 where
    d: "drawFrame app a clock = Some (Ok (mid, c1))" and
    r: "run_frames mid (xs @ ys) c1 = Some (Ok r)"
    by (auto split: option.splits sum.splits)
  from Cons.IH [OF r] d show ?case by simp
qed

lemma unat_ucast_of_nat_64_32:
  "unat (ucast (of_nat n :: 64 word) :: 32 word) = n mod 2 ^ 32"
proof -
  have "unat (ucast (of_nat n :: 64 word) :: 32 word) = (n mod 2 ^ 64) mod 2 ^ 32"
    by (simp add: unsigned_ucast_eq unat_of_nat take_bit_eq_mod)
  also have "\<dots> = n mod 2 ^ 32"
    by (rule mod_mod_cancel) simp
  finally show ?thesis .
qed

lemma unat_of_nat_mod_32:
  assumes "x < 2 ^ 32"
  shows "unat (of_nat (x mod b) :: 32 word) = x mod b"
proof -
  have "x mod b \<le> x" by simp
  with assms have "x mod b < 2 ^ 32" by linarith
  then show ?thesis by (simp add: unat_of_nat)
qed

lemma frame_index_after_run:
  assumes run: "run_frames (initial_Application fps fbs recs) acqs clock = Some (Ok (app, clock'))"
  shows "unat (m_frame_index (m_render app)) = (length acqs mod 2 ^ 32) mod length fbs"
    and "m_current_frame app = of_nat (length acqs) + 1"
    and "m_framebuffers (m_render app) = fbs"
proof -
  note R = run_frames_Ok [OF run]
  show "m_current_frame app = of_nat (length acqs) + 1"
    using R by (simp add: initial_Application_def)
  show "m_framebuffers (m_render app) = fbs"
    using R by (simp add: initial_Application_def)
  show "unat (m_frame_index (m_render app)) = (length acqs mod 2 ^ 32) mod length fbs"
  proof (cases acqs)
    case Nil
    with run have "app = initial_Application fps fbs recs" by simp
    with Nil show ?thesis by (simp add: initial_Application_def)
  next
    case (Cons a rest)
    with R have "m_frame_index (m_render app) =
        of_nat (unat (ucast (of_nat (length acqs) :: 64 word) :: 32 word) mod length fbs)"
      by (simp add: initial_Application_def)
    then have "m_frame_index (m_render app) = of_nat ((length acqs mod 2 ^ 32) mod length fbs)"
      by (simp only: unat_ucast_of_nat_64_32)
    moreover have "length acqs mod 2 ^ 32 < (2 ^ 32 :: nat)" by simp
    ultimately show ?thesis by (simp only: unat_of_nat_mod_32)
  qed
qed

lemma unlimited_run:
  "m_FPS_limit app = None \<Longrightarrow> m_framebuffers (m_render app) \<noteq> [] \<Longrightarrow>
     \<exists>app'. run_frames app acqs (replicate (2 * length acqs) t @ rest) = Some (Ok (app', rest))"
proof (induction acqs arbitrary: app)
  case Nil
  then show ?case by simp
next
  case (Cons a acqs)
  have fb: "m_framebuffers (m_render (render_timed app a t t)) \<noteq> []"
    using Cons.prems by (simp add: render_timed_fields)
  from end_frame_total [OF fb] obtain mid where e: "end_frame (render_timed app a t t) = Ok mid"
    by blast
  from end_frame_Ok [OF e] Cons.prems
  have m: "m_FPS_limit mid = None" "m_framebuffers (m_render mid) \<noteq> []"
    by (simp_all add: render_timed_fields)
  have d: "drawFrame app a (t # t # replicate (2 * length acqs) t @ rest)
             = Some (Ok (mid, replicate (2 * length acqs) t @ rest))"
    using Cons.prems e by (simp add: drawFrame_def)
  from Cons.IH [OF m] obtain app' where
    "run_frames mid acqs (replicate (2 * length acqs) t @ rest) = Some (Ok (app', rest))"
    by blast
  with d show ?case by simp
qed


text \<open>
  C2, as amended. After \<open>N\<close> frames from the start (frame counter 1, frame index 0) with
  \<open>B > 0\<close> framebuffers, the frame index is \<open>(N mod 2^32) mod B\<close>, which is
  \<open>N mod B\<close> for \<open>N < 2^32\<close>, and the frame counter is \<open>N + 1\<close>; the frame index is
  below \<open>B\<close> after the \<open>N\<close> frames and, when the driver acquires image indices below
  \<open>B\<close>, at the start of every frame and after its image acquisition.
\<close>

theorem frame_index_after_frames:
  assumes run: "run_frames (initial_Application fps fbs recs) acqs clock = Some (Ok (app, clock'))"
      and fbs: "fbs \<noteq> []"
      and drv: "\<forall>a\<in>set acqs. \<forall>i. a = Some i \<longrightarrow> unat i < length fbs"
  shows "unat (m_frame_index (m_render app)) = (length acqs mod 2 ^ 32) mod length fbs
       \<and> (length acqs < 2 ^ 32 \<longrightarrow> unat (m_frame_index (m_render app)) = length acqs mod length fbs)
       \<and> unat (m_frame_index (m_render app)) < length fbs
       \<and> m_current_frame app = of_nat (length acqs) + 1
       \<and> (\<forall>k<length acqs. \<exists>s c.
             run_frames (initial_Application fps fbs recs) (take k acqs) clock = Some (Ok (s, c)) \<and>
             unat (m_frame_index (m_render s)) < length fbs \<and>
             unat (m_frame_index (acquireImage (acqs ! k) (m_render s))) < length fbs)"
proof (intro conjI allI impI)
  note F = frame_index_after_run [OF run]
  show a: "unat (m_frame_index (m_render app)) = (length acqs mod 2 ^ 32) mod length fbs"
    by (rule F(1))
  show "unat (m_frame_index (m_render app)) = length acqs mod length fbs"
    if "length acqs < 2 ^ 32"
    using a that by simp
  show "unat (m_frame_index (m_render app)) < length fbs"
    using a fbs by simp
  show "m_current_frame app = of_nat (length acqs) + 1"
    by (rule F(2))
  show "\<exists>s c. run_frames (initial_Application fps fbs recs) (take k acqs) clock = Some (Ok (s, c)) \<and>
             unat (m_frame_index (m_render s)) < length fbs \<and>
             unat (m_frame_index (acquireImage (acqs ! k) (m_render s))) < length fbs"
    if k: "k < length acqs" for k
  proof -
    from run have "run_frames (initial_Application fps fbs recs) (take k acqs @ drop k acqs) clock
        = Some (Ok (app, clock'))"
      by simp
    from run_frames_append [OF this] obtain s c where
      p: "run_frames (initial_Application fps fbs recs) (take k acqs) clock = Some (Ok (s, c))"
      by blast
    from frame_index_after_run(1) [OF p] fbs
    have b: "unat (m_frame_index (m_render s)) < length fbs"
      by simp
    have "unat (m_frame_index (acquireImage (acqs ! k) (m_render s))) < length fbs"
    proof (cases "acqs ! k")
      case None
      with b show ?thesis by (simp add: acquireImage_def)
    next
      case (Some i)
      from k have "acqs ! k \<in> set acqs" by simp
      with drv Some have "unat i < length fbs" by blast
      with Some show ?thesis by (simp add: acquireImage_def)
    qed
    with p b show ?thesis by blast
  qed
qed

lemma uncapped_run:
  "\<exists>app'. run_frames uncapped_Application acqs (replicate (2 * length acqs) t) = Some (Ok (app', []))"
  using unlimited_run [of uncapped_Application acqs t "[]"]
  by (simp add: uncapped_Application_def initial_Application_def)

theorem frame_index_after_frames_witness:
  "frame_index_after (run_frames uncapped_Application [Some 0, Some 1, Some 2, Some 0]
       (replicate 8 1000)) = Some 1"
proof -
  from uncapped_run [of "[Some 0, Some 1, Some 2, Some 0]" 1000]
  obtain app' where
    r: "run_frames uncapped_Application [Some 0, Some 1, Some 2, Some 0] (replicate 8 1000)
          = Some (Ok (app', []))"
    by auto
  have "unat (m_frame_index (m_render app')) = 1"
    using frame_index_after_frames [of None "[41, 42, 43]" "replicate 10 0" "[Some 0, Some 1, Some 2, Some 0]"
                 "replicate 8 1000" app' "[]"] r
    by (simp add: uncapped_Application_def)
  then have "m_frame_index (m_render app') = 1"
    by (metis unat_1 word_unat_eq_iff)
  with r show ?thesis by (simp add: frame_index_after_def)
qed

text \<open>
  The claim C2 as stated fails after \<open>2^32\<close> frames with 3 framebuffers: the frame
  index is 0, while \<open>2^32 mod 3 = 1\<close>.
\<close>

theorem frame_index_wraps_counterexample:
  "frame_index_after (run_frames uncapped_Application (replicate many_frames None)
       (replicate (2 * many_frames) 1000)) = Some 0
   \<and> many_frames mod length (m_framebuffers (m_render uncapped_Application)) = 1"
proof -
  from uncapped_run [of "replicate many_frames None" 1000]
  obtain app' where
    r: "run_frames uncapped_Application (replicate many_frames None)
          (replicate (2 * many_frames) 1000) = Some (Ok (app', []))"
    by auto
  from frame_index_after_run(1) [OF r [unfolded uncapped_Application_def]]
  have "unat (m_frame_index (m_render app')) = (many_frames mod 2 ^ 32) mod 3"
    by simp
  then have "unat (m_frame_index (m_render app')) = 0"
    by (simp add: many_frames_def)
  then have "m_frame_index (m_render app') = 0"
    by (simp add: unat_eq_0)
  moreover have "many_frames mod length (m_framebuffers (m_render uncapped_Application)) = 1"
    by (simp add: many_frames_def uncapped_Application_def initial_Application_def)
  ultimately show ?thesis using r by (simp add: frame_index_after_def)
qed

lemma block_until_Some:
  "block_until limit clock = Some rest \<Longrightarrow>
     \<exists>polled t. clock = polled @ t # rest \<and> limit \<le> t \<and> (\<forall>x\<in>set polled. x < limit)"
proof (induction clock)
  case Nil
  then show ?case by simp
next
  case (Cons now clock)
  show ?case
  proof (cases "limit \<le> now")
    case True
    with Cons.prems have "rest = clock" by simp
    with True have "now # clock = [] @ now # rest \<and> limit \<le> now \<and> (\<forall>x\<in>set []. x < limit)"
      by simp
    then show ?thesis by blast
  next
    case False
    with Cons.prems have "block_until limit clock = Some rest" by simp
    from Cons.IH [OF this] obtain polled t where
      "clock = polled @ t # rest" "limit \<le> t" "\<forall>x\<in>set polled. x < limit"
      by blast
    with False have "now # clock = (now # polled) @ t # rest \<and> limit \<le> t \<and>
        (\<forall>x\<in>set (now # polled). x < limit)"
      by simp
    then show ?thesis by blast
  qed
qed

lemma block_until_returns:
  "\<exists>t\<in>set clock. limit \<le> t \<Longrightarrow> \<exists>rest. block_until limit clock = Some rest"
  by (induction clock) auto

lemma truncated_deadline:
  assumes "0 < n"
  shows "to_uint64 (get_time_limit t0 (1000 / real n)) = t0 + 1000 div n"
proof -
  have "\<lfloor>real t0 + 1000 / real n\<rfloor> = int t0 + \<lfloor>(1000 :: real) / real n\<rfloor>"
    by (metis floor_add_int add.commute of_int_of_nat_eq)
  also have "\<lfloor>(1000 :: real) / real n\<rfloor> = int (1000 div n)"
    using floor_divide_of_nat_eq [of 1000 n, where ?'a = real] by simp
  finally show ?thesis
    by (simp add: to_uint64_def get_time_limit_def)
qed

lemma drawFrame_capped:
  assumes "m_FPS_limit app = Some cap" and "cap \<noteq> 0"
  shows "drawFrame app acquired (t0 # t1 # t2 # clock) =
     (case block_until (t0 + 1000 div unat cap) clock of
        None \<Rightarrow> None
      | Some rest \<Rightarrow>
          Some (case end_frame (render_timed app acquired t1 t2) of
                  Inl e \<Rightarrow> Inl e
                | Inr app' \<Rightarrow> Ok (app', rest)))"
proof -
  from assms(2) have "0 < unat cap" by (simp add: unat_gt_0)
  from truncated_deadline [OF this] assms show ?thesis
    by (simp add: drawFrame_def Let_def)
qed

text \<open>
  C7, as amended. With a cap configured, the deadline that \<open>drawFrame\<close> passes to
  \<open>block_until\<close> is the first clock reading, taken before the render sequence, plus
  \<open>1000 / cap\<close> truncated to whole milliseconds (16 for a cap of 60); \<open>drawFrame\<close>
  returns at the first reading polled after the render that is at least this truncated
  deadline, and it does return when such a reading comes and there is a framebuffer.
\<close>

theorem drawFrame_blocks_until_truncated_deadline:
  assumes cap: "m_FPS_limit app = Some cap" and nz: "cap \<noteq> 0"
  shows "to_uint64 (get_time_limit t0 (1000 / real (unat cap))) = t0 + 1000 div unat cap
       \<and> (drawFrame app acquired (t0 # t1 # t2 # clock) = Some (Ok (app', rest)) \<longrightarrow>
            (\<exists>polled t. clock = polled @ t # rest \<and> t0 + 1000 div unat cap \<le> t \<and>
               (\<forall>x\<in>set polled. x < t0 + 1000 div unat cap)))
       \<and> (m_framebuffers (m_render app) \<noteq> [] \<and> (\<exists>t\<in>set clock. t0 + 1000 div unat cap \<le> t) \<longrightarrow>
            (\<exists>app' rest. drawFrame app acquired (t0 # t1 # t2 # clock) = Some (Ok (app', rest))))
       \<and> (cap = 60 \<longrightarrow> t0 + 1000 div unat cap = t0 + 16)"
proof (intro conjI impI)
  from nz have pos: "0 < unat cap" by (simp add: unat_gt_0)
  show "to_uint64 (get_time_limit t0 (1000 / real (unat cap))) = t0 + 1000 div unat cap"
    by (rule truncated_deadline [OF pos])
  note D = drawFrame_capped [OF cap nz, of acquired t0 t1 t2 clock]
  show "\<exists>polled t. clock = polled @ t # rest \<and> t0 + 1000 div unat cap \<le> t \<and>
               (\<forall>x\<in>set polled. x < t0 + 1000 div unat cap)"
    if "drawFrame app acquired (t0 # t1 # t2 # clock) = Some (Ok (app', rest))"
  proof -
    from that D have "block_until (t0 + 1000 div unat cap) clock = Some rest"
      by (auto split: option.splits sum.splits)
    then show ?thesis by (rule block_until_Some)
  qed
  show "\<exists>app' rest. drawFrame app acquired (t0 # t1 # t2 # clock) = Some (Ok (app', rest))"
    if h: "m_framebuffers (m_render app) \<noteq> [] \<and> (\<exists>t\<in>set clock. t0 + 1000 div unat cap \<le> t)"
  proof -
    from h block_until_returns obtain rest where
      b: "block_until (t0 + 1000 div unat cap) clock = Some rest"
      by blast
    from h have "m_framebuffers (m_render (render_timed app acquired t1 t2)) \<noteq> []"
      by (simp add: render_timed_fields)
    from end_frame_total [OF this] obtain app' where
      "end_frame (render_timed app acquired t1 t2) = Ok app'"
      by blast
    with b D show ?thesis by simp
  qed
  show "t0 + 1000 div unat cap = t0 + 16" if "cap = 60"
    using that by simp
qed



text \<open>
  The claim C7 as stated fails with a cap of 60: the deadline is computed at reading 100
  and \<open>drawFrame\<close> returns at reading 116, when 16 ms have elapsed, less than
  \<open>1000 / 60\<close> ms.
\<close>

theorem drawFrame_returns_after_16_ms_counterexample:
  "remaining_clock (drawFrame capped_Application (Some 0) [100, 100, 105, 110, 116, 117]) = Some [117]
   \<and> real 116 - real 100 < 1000 / 60"
proof -
  have "drawFrame capped_Application (Some 0) [100, 100, 105, 110, 116, 117] =
      (case block_until (100 + 1000 div 60) [110, 116, 117] of
        None \<Rightarrow> None
      | Some rest \<Rightarrow>
          Some (case end_frame (render_timed capped_Application (Some 0) 100 105) of
                  Inl e \<Rightarrow> Inl e
                | Inr app' \<Rightarrow> Ok (app', rest)))"
    using drawFrame_capped [of capped_Application 60 "Some 0" 100 100 105 "[110, 116, 117]"]
    by (simp add: capped_Application_def initial_Application_def FPS_LIMIT_60_def)
  moreover have "\<exists>app'. end_frame (render_timed capped_Application (Some 0) 100 105) = Ok app'"
    by (rule end_frame_total)
       (simp add: render_timed_fields capped_Application_def initial_Application_def)
  ultimately show ?thesis
    by (auto simp: remaining_clock_def)
qed

theorem drawFrame_blocks_until_truncated_deadline_witness:
  "remaining_clock (drawFrame capped_Application (Some 0) [100, 100, 105, 110, 116, 117]) = Some [117]
   \<and> 100 + 1000 div unat (60 :: 8 word) \<le> (116 :: nat)"
proof -
  have c: "m_FPS_limit capped_Application = Some 60" "(60 :: 8 word) \<noteq> 0"
    and f: "m_framebuffers (m_render capped_Application) \<noteq> []"
    by (simp_all add: capped_Application_def initial_Application_def FPS_LIMIT_60_def)
  note T = drawFrame_blocks_until_truncated_deadline [OF c, where ?t0.0 = 100 and acquired = "Some 0" and ?t1.0 = 100
                 and ?t2.0 = 105 and clock = "[110, 116, 117]"]
  have "\<exists>t\<in>set [110, 116, 117 :: nat]. 100 + 1000 div unat (60 :: 8 word) \<le> t"
    by simp
  with T [THEN conjunct2, THEN conjunct2, THEN conjunct1] f obtain app' rest where
    d: "drawFrame capped_Application (Some 0) [100, 100, 105, 110, 116, 117] = Some (Ok (app', rest))"
    by blast
  from T [where app' = app' and rest = rest, THEN conjunct2, THEN conjunct1] d
  obtain polled t where
    p: "[110, 116, 117] = polled @ t # rest" and t: "100 + 1000 div unat (60 :: 8 word) \<le> t"
      and q: "\<forall>x\<in>set polled. x < 100 + 1000 div unat (60 :: 8 word)"
    by blast
  have "rest = [117]"
  proof (cases polled)
    case Nil
    with p t show ?thesis by simp
  next
    case (Cons x xs)
    with p have x: "[116, 117] = xs @ t # rest" by simp
    show ?thesis
    proof (cases xs)
      case Nil
      with x show ?thesis by simp
    next
      case (Cons y ys)
      with x have "y = 116" by simp
      with q \<open>polled = x # xs\<close> Cons show ?thesis by simp
    qed
  qed
  with d show ?thesis by (simp add: remaining_clock_def)
qed

end
